theory Spec2Isabelle
  imports Main
begin

section \<open>Errors, promises and artifacts\<close>

text \<open>
  A JavaScript exception is a value: \<open>Error code message\<close>, where \<open>code\<close> is the
  \<open>.code\<close> property an HTTP client sets (404, 409) and \<open>None\<close> for a plain
  \<open>new Error(message)\<close>.
\<close>

datatype error = Error (err_code: "int option") (err_message: string)

text \<open>
  A promise is the handle of one asynchronous operation together with what it settles to:
  \<open>Inl e\<close> when it rejects, \<open>Inr v\<close> when it resolves. \<open>call_id\<close> is the position of the
  transport call that created the promise among all calls the store issued, so two promises
  are equal only when they stem from the same call.
\<close>

datatype 'a promise = Promise (call_id: nat) (settled: "error + 'a")

text \<open>The fields of an \<open>Artifact\<close> of the Zeus SDK that this code reads.\<close>

record artifact =
  name :: string
  download_url :: string
  atype :: "string option"

text \<open>
  A \<open>RegExp\<close> object: its \<open>global\<close> (g) and \<open>sticky\<close> (y) flags, its \<open>lastIndex\<close>, and its
  pattern as the matcher of the language definition: \<open>matcher re s i\<close> is the end index of
  the match of the pattern in \<open>s\<close> that starts at index \<open>i\<close>, if there is one.
\<close>

record regExp =
  global :: bool
  sticky :: bool
  lastIndex :: nat
  matcher :: "string \<Rightarrow> nat \<Rightarrow> nat option"

text \<open>The first match among \<open>n\<close> start indices from \<open>i\<close> on.\<close>

fun searchFrom :: "(nat \<Rightarrow> nat option) \<Rightarrow> nat \<Rightarrow> nat \<Rightarrow> nat option" where
  "searchFrom m i 0 = None"
| "searchFrom m i (Suc n) = (case m i of Some e \<Rightarrow> Some e | None \<Rightarrow> searchFrom m (Suc i) n)"

text \<open>
  \<open>RegExp.prototype.exec\<close> as far as \<open>test\<close> needs it (RegExpBuiltinExec): with the g or y
  flag the search starts at \<open>lastIndex\<close>, otherwise at 0; a start beyond the end of the
  string fails; with the y flag only the start index is tried, otherwise every index up to
  the end of the string. With the g or y flag a match stores its end index in \<open>lastIndex\<close>
  and a failure stores 0; without them the object is left as it is. The result is the end
  index of the match, and the object after the call.
\<close>

definition regExpBuiltinExec :: "regExp \<Rightarrow> string \<Rightarrow> nat option \<times> regExp" where
  "regExpBuiltinExec re s =
     (let stateful = (global re \<or> sticky re);
          start = (if stateful then lastIndex re else 0);
          tries = (if start > length s then 0
                   else if sticky re then 1
                   else Suc (length s) - start)
      in case searchFrom (matcher re s) start tries of
           None \<Rightarrow> (None, if stateful then re\<lparr>lastIndex := 0\<rparr> else re)
         | Some e \<Rightarrow> (Some e, if stateful then re\<lparr>lastIndex := e\<rparr> else re))"

text \<open>\<open>re.test(s)\<close>: whether \<open>exec\<close> found a match, and the object after the call.\<close>

definition test :: "regExp \<Rightarrow> string \<Rightarrow> bool \<times> regExp" where
  "test re s = (case regExpBuiltinExec re s of (found, re') \<Rightarrow> (found \<noteq> None, re'))"

text \<open>
  \<open>RegExp\<close> objects are shared by reference and \<open>test\<close> changes them in place, so they
  live in a heap: the object at each address. A variable or property that holds a \<open>RegExp\<close>
  holds its address; two of them may hold the same one.
\<close>

type_synonym regExps = "nat \<Rightarrow> regExp"

text \<open>\<open>re.test(s)\<close> for the object at address \<open>re\<close>: the answer and the heap after it.\<close>

definition testAt :: "regExps \<Rightarrow> nat \<Rightarrow> string \<Rightarrow> bool \<times> regExps" where
  "testAt h re s = (case test (h re) s of (answer, after) \<Rightarrow> (answer, h(re := after)))"

text \<open>
  \<open>stores/zeus.ts\<close>: interface \<open>FilterOptions\<close>; \<open>None\<close> is an absent key, \<open>Some re\<close> the
  address of a \<open>RegExp\<close>.
\<close>

record filterOptions =
  includeNames :: "nat option"
  excludeNames :: "nat option"

section \<open>The artifact store (\<open>stores/zeus.ts\<close>)\<close>

text \<open>
  The Zeus client is a collaborator. Its answer may differ from one call to the next (the
  service is remote), so each answer depends on the number of calls issued before it.
\<close>

record zeusClient =
  client_downloadArtifact :: "nat \<Rightarrow> artifact \<Rightarrow> error + string"
  client_listArtifactsForRevision :: "nat \<Rightarrow> string \<Rightarrow> string \<Rightarrow> string \<Rightarrow> error + artifact list"

datatype transport =
    DownloadCall artifact
  | ListCall string string string

text \<open>
  The store: its client, the project, and the two caches (objects used as dictionaries from
  string keys to promises). \<open>issued\<close> is not a field of the class: it records, in order, the
  calls made on \<open>this.client\<close>, so that theorems can count them. Keys are download URLs and
  commit ids, never names of \<open>Object.prototype\<close> members.
\<close>

record zeusStore =
  client :: zeusClient
  repoOwner :: string
  repoName :: string
  downloadCache :: "string \<rightharpoonup> string promise"
  fileListCache :: "string \<rightharpoonup> artifact list promise"
  issued :: "transport list"

text \<open>The constructor: both caches start empty.\<close>

definition newZeusStore :: "zeusClient \<Rightarrow> string \<Rightarrow> string \<Rightarrow> zeusStore" where
  "newZeusStore c owner repo =
     \<lparr>client = c, repoOwner = owner, repoName = repo,
      downloadCache = Map.empty, fileListCache = Map.empty, issued = []\<rparr>"

text \<open>
  \<open>downloadArtifact\<close> has no \<open>await\<close>: its body runs to the end when it is called, so the
  lookup and the insertion cannot be interleaved with another call. A promise is truthy
  whatever it settles to, so \<open>if (cached)\<close> asks whether the key is present. The client's
  method is asynchronous: a failed transport is a promise that rejects, never an exception
  thrown by the call itself.
\<close>

definition downloadArtifact :: "zeusStore \<Rightarrow> artifact \<Rightarrow> string promise \<times> zeusStore" where
  "downloadArtifact st a =
     (case downloadCache st (download_url a) of
        Some cached \<Rightarrow> (cached, st)
      | None \<Rightarrow>
          (let n = length (issued st);
               promise = Promise n (client_downloadArtifact (client st) n a)
           in (promise,
               st\<lparr>downloadCache := (downloadCache st)(download_url a \<mapsto> promise),
                  issued := issued st @ [DownloadCall a]\<rparr>)))"

text \<open>
  \<open>downloadArtifacts\<close> maps \<open>downloadArtifact\<close> over the list, in order; the promises it
  collects are what \<open>Promise.all\<close> then waits for.
\<close>

fun downloadArtifacts :: "zeusStore \<Rightarrow> artifact list \<Rightarrow> string promise list \<times> zeusStore" where
  "downloadArtifacts st [] = ([], st)"
| "downloadArtifacts st (a # as) =
     (case downloadArtifact st a of
        (p, st') \<Rightarrow> (case downloadArtifacts st' as of (ps, st'') \<Rightarrow> (p # ps, st'')))"

definition listArtifactsForRevision ::
  "zeusStore \<Rightarrow> string \<Rightarrow> artifact list promise \<times> zeusStore" where
  "listArtifactsForRevision st revision =
     (case fileListCache st revision of
        Some cached \<Rightarrow> (cached, st)
      | None \<Rightarrow>
          (let n = length (issued st);
               promise = Promise n
                 (client_listArtifactsForRevision (client st) n (repoOwner st) (repoName st) revision)
           in (promise,
               st\<lparr>fileListCache := (fileListCache st)(revision \<mapsto> promise),
                  issued := issued st @ [ListCall (repoOwner st) (repoName st) revision]\<rparr>)))"

text \<open>
  \<open>artifacts.filter(artifact => re.test(artifact.name))\<close> and its negated form: the
  artifacts are tested in order on the \<open>RegExp\<close> at address \<open>re\<close>, which each test may
  change. With \<open>keep = True\<close> an artifact stays when the test holds, with \<open>keep = False\<close>
  when it does not. The result is the list kept and the heap after the last test.
\<close>

fun filterByTest :: "bool \<Rightarrow> nat \<Rightarrow> regExps \<Rightarrow> artifact list \<Rightarrow> artifact list \<times> regExps" where
  "filterByTest keep re h [] = ([], h)"
| "filterByTest keep re h (a # as) =
     (case testAt h re (name a) of
        (m, h1) \<Rightarrow>
          (case filterByTest keep re h1 as of
             (kept, h2) \<Rightarrow> (if m = keep then a # kept else kept, h2)))"

text \<open>\<open>if (re) { artifacts = artifacts.filter(...) }\<close> for an optional \<open>RegExp\<close>.\<close>

definition filterIfPresent ::
  "bool \<Rightarrow> nat option \<Rightarrow> regExps \<Rightarrow> artifact list \<Rightarrow> artifact list \<times> regExps" where
  "filterIfPresent keep re h artifacts =
     (case re of
        Some r \<Rightarrow> filterByTest keep r h artifacts
      | None \<Rightarrow> (artifacts, h))"

text \<open>
  \<open>filterArtifactsForRevision\<close> awaits the listing: a rejected listing rejects the filter
  with the same error. \<open>filterOptions\<close> is an optional parameter (\<open>None\<close> when absent). The
  function is given the store and the heap, and returns what its promise settles to, the
  store after the call and the heap after the call.
\<close>

definition filterArtifactsForRevision ::
  "zeusStore \<Rightarrow> regExps \<Rightarrow> string \<Rightarrow> filterOptions option \<Rightarrow>
   (error + artifact list) \<times> zeusStore \<times> regExps" where
  "filterArtifactsForRevision st h revision fo =
     (case listArtifactsForRevision st revision of
        (p, st') \<Rightarrow>
          (case settled p of
             Inl e \<Rightarrow> (Inl e, st', h)
           | Inr listed \<Rightarrow>
               (case fo of
                  None \<Rightarrow> (Inr listed, st', h)
                | Some opts \<Rightarrow>
                    (case filterIfPresent True (includeNames opts) h listed of
                       (included, h1) \<Rightarrow>
                         (case filterIfPresent False (excludeNames opts) h1 included of
                            (excluded, h2) \<Rightarrow> (Inr excluded, st', h2))))))"

text \<open>
  \<open>RevisionInfo\<close>, \<open>Status\<close> and \<open>Result\<close> come from the Zeus SDK. The code compares with
  \<open>Status.FINISHED\<close> and \<open>Result.PASSED\<close> only; every other member of the enumerations
  is \<open>OtherStatus\<close> or \<open>OtherResult\<close> with its name.
\<close>

datatype Status = FINISHED | OtherStatus string

datatype Result = PASSED | OtherResult string

record revisionInfo =
  status :: Status
  result :: Result

definition isRevisionBuiltSuccessfully :: "revisionInfo \<Rightarrow> bool" where
  "isRevisionBuiltSuccessfully revisionInfo =
     (status revisionInfo = FINISHED \<and> result revisionInfo = PASSED)"

definition isRevisionFailed :: "revisionInfo \<Rightarrow> bool" where
  "isRevisionFailed revisionInfo =
     (status revisionInfo = FINISHED \<and> result revisionInfo \<noteq> PASSED)"

definition isRevisionPending :: "revisionInfo \<Rightarrow> bool" where
  "isRevisionPending revisionInfo = (status revisionInfo \<noteq> FINISHED)"

section \<open>The base target (\<open>unnamed/part_000\<close>, the module \<open>targets/base\<close>)\<close>

text \<open>
  The fields of \<open>TargetConfig\<close> the constructor reads. \<open>stringToRegexp\<close> lives in
  \<open>utils/filters\<close>, outside these sources; the constructor takes it as a parameter: for
  a string and a heap it gives the address of the \<open>RegExp\<close> it made and the heap with it.
\<close>

record targetConfig =
  includeFiles :: "string option"
  excludeFiles :: "string option"

record baseTarget =
  target_name :: string
  config :: targetConfig
  target_filterOptions :: filterOptions



text \<open>
  Object spread \<open>{...a, ...b}\<close>: the keys of \<open>a\<close>, then the keys of \<open>b\<close>, a key of \<open>b\<close>
  replacing the same key of \<open>a\<close>.
\<close>

definition spread :: "filterOptions \<Rightarrow> filterOptions \<Rightarrow> filterOptions" where
  "spread a b =
     \<lparr>includeNames = (case includeNames b of Some re \<Rightarrow> Some re | None \<Rightarrow> includeNames a),
      excludeNames = (case excludeNames b of Some re \<Rightarrow> Some re | None \<Rightarrow> excludeNames a)\<rparr>"

definition noFilter :: filterOptions where
  "noFilter = \<lparr>includeNames = None, excludeNames = None\<rparr>"

text \<open>
  \<open>getArtifactsForRevision(revision, defaultFilterOptions = {})\<close> passes
  \<open>{...this.filterOptions, ...defaultFilterOptions}\<close> to the store. The spread copies the
  addresses: the merged options hold the objects of the target and of the default.
\<close>

definition getArtifactsForRevision ::
  "baseTarget \<Rightarrow> zeusStore \<Rightarrow> regExps \<Rightarrow> string \<Rightarrow> filterOptions option \<Rightarrow>
   (error + artifact list) \<times> zeusStore \<times> regExps" where
  "getArtifactsForRevision t st h revision defaultFilterOptions =
     filterArtifactsForRevision st h revision
       (Some (spread (target_filterOptions t)
          (case defaultFilterOptions of None \<Rightarrow> noFilter | Some d \<Rightarrow> d)))"

text \<open>
  A pattern that is a choice of literal strings followed by \<open>$\<close> (without the \<open>m\<close> flag
  \<open>$\<close> matches at the end of the input only): it matches from index \<open>i\<close> when the rest of
  the string from \<open>i\<close> is one of the literals, and the match ends where the string ends.
\<close>

definition literalsAtEnd :: "string list \<Rightarrow> string \<Rightarrow> nat \<Rightarrow> nat option" where
  "literalsAtEnd literals s i = (if drop i s \<in> set literals then Some (length s) else None)"

text \<open>
  The PyPI target (the second module held by \<open>src/utils/github_api.ts\<close>):
  \<open>DEFAULT_PYPI_REGEX = /(\.whl|\.gz|\.zip)$/\<close>, a literal without flags. The literal is
  evaluated once, when the module is loaded; \<open>DEFAULT_PYPI_REGEX\<close> is the address of the
  object made then, and \<open>pypiRegExp\<close> is that object.
\<close>

definition DEFAULT_PYPI_REGEX :: nat where
  "DEFAULT_PYPI_REGEX = 0"

definition pypiRegExp :: regExp where
  "pypiRegExp =
     \<lparr>global = False, sticky = False, lastIndex = 0,
      matcher = literalsAtEnd [''.whl'', ''.gz'', ''.zip'']\<rparr>"

section \<open>A store's lifetime\<close>

text \<open>
  What callers can ask of one store, and the store after a sequence of such requests: the
  public methods that touch the caches. (\<open>getRevision\<close> and the three predicates on its
  answer leave the store as it is.) Calls that run concurrently are calls made one after
  another before the earlier promises have settled; no method looks at whether a promise has
  settled, so a sequence of requests covers them.
\<close>

datatype request =
    Download artifact
  | DownloadMany "artifact list"
  | Listing string
  | Filtering regExps string "filterOptions option"

fun serve :: "zeusStore \<Rightarrow> request \<Rightarrow> zeusStore" where
  "serve st (Download a) = snd (downloadArtifact st a)"
| "serve st (DownloadMany as) = snd (downloadArtifacts st as)"
| "serve st (Listing revision) = snd (listArtifactsForRevision st revision)"
| "serve st (Filtering h revision fo) = fst (snd (filterArtifactsForRevision st h revision fo))"

definition lifetime :: "zeusStore \<Rightarrow> request list \<Rightarrow> zeusStore" where
  "lifetime st rs = foldl serve st rs"

text \<open>The download URLs of the transport calls issued so far, in order.\<close>

fun downloadedUrls :: "transport list \<Rightarrow> string list" where
  "downloadedUrls [] = []"
| "downloadedUrls (DownloadCall a # cs) = download_url a # downloadedUrls cs"
| "downloadedUrls (ListCall owner repo revision # cs) = downloadedUrls cs"

text \<open>
  The invariant of the download cache: no URL was fetched twice, and every fetched URL has
  its promise in the cache.
\<close>

definition cached_downloads :: "zeusStore \<Rightarrow> bool" where
  "cached_downloads st =
     (distinct (downloadedUrls (issued st)) \<and>
      set (downloadedUrls (issued st)) \<subseteq> dom (downloadCache st))"

text \<open>
  A name matches a regular expression when its pattern matches somewhere in the name. The
  data model's reading of a filter: an absent \<open>includeNames\<close> matches every name, an absent
  \<open>excludeNames\<close> matches none.
\<close>

definition matches :: "regExp \<Rightarrow> string \<Rightarrow> bool" where
  "matches re s = (searchFrom (matcher re s) 0 (Suc (length s)) \<noteq> None)"

definition matchesInclude :: "regExps \<Rightarrow> filterOptions \<Rightarrow> artifact \<Rightarrow> bool" where
  "matchesInclude h opts a =
     (case includeNames opts of None \<Rightarrow> True | Some re \<Rightarrow> matches (h re) (name a))"

definition matchesExclude :: "regExps \<Rightarrow> filterOptions \<Rightarrow> artifact \<Rightarrow> bool" where
  "matchesExclude h opts a =
     (case excludeNames opts of None \<Rightarrow> False | Some re \<Rightarrow> matches (h re) (name a))"

text \<open>Regular expressions whose \<open>test\<close> keeps no position: neither the g nor the y flag.\<close>

definition stateless :: "regExp \<Rightarrow> bool" where
  "stateless re = (\<not> global re \<and> \<not> sticky re)"

definition statelessOptions :: "regExps \<Rightarrow> filterOptions \<Rightarrow> bool" where
  "statelessOptions h opts =
     ((case includeNames opts of None \<Rightarrow> True | Some re \<Rightarrow> stateless (h re)) \<and>
      (case excludeNames opts of None \<Rightarrow> True | Some re \<Rightarrow> stateless (h re)))"

text \<open>
  A concrete store for the scenarios: revision \<open>abc123\<close> has three artifacts; the first
  transport call of the client fails and every later one succeeds.
\<close>

definition wheel :: artifact where
  "wheel = \<lparr>name = ''pkg-1.0.0.whl'', download_url = ''https://zeus.example/1'', atype = None\<rparr>"

definition sdist :: artifact where
  "sdist = \<lparr>name = ''pkg-1.0.0.tar.gz'', download_url = ''https://zeus.example/2'', atype = None\<rparr>"

definition readme :: artifact where
  "readme = \<lparr>name = ''readme.txt'', download_url = ''https://zeus.example/3'', atype = None\<rparr>"

definition scenarioListing :: "artifact list" where
  "scenarioListing = [wheel, sdist, readme]"

definition scenarioClient :: zeusClient where
  "scenarioClient =
     \<lparr>client_downloadArtifact = (\<lambda>n a. if n = 0 then Inl (Error None ''ECONNRESET'') else Inr (''/tmp/'' @ name a)),
      client_listArtifactsForRevision =
        (\<lambda>n owner repo revision.
           if revision = ''abc123'' then Inr scenarioListing else Inl (Error (Some 404) ''Not found''))\<rparr>"

definition scenarioStore :: zeusStore where
  "scenarioStore = newZeusStore scenarioClient ''getsentry'' ''craft''"

text \<open>\<open>/\.whl$/\<close> and \<open>/\.gz$/\<close>, without flags.\<close>

definition whlAtEnd :: regExp where
  "whlAtEnd =
     \<lparr>global = False, sticky = False, lastIndex = 0, matcher = literalsAtEnd [''.whl'']\<rparr>"

definition gzAtEnd :: regExp where
  "gzAtEnd =
     \<lparr>global = False, sticky = False, lastIndex = 0, matcher = literalsAtEnd [''.gz'']\<rparr>"

text \<open>\<open>/pkg/g\<close>: the literal \<open>pkg\<close> anywhere, with the g flag.\<close>

definition pkgGlobal :: regExp where
  "pkgGlobal =
     \<lparr>global = True, sticky = False, lastIndex = 0,
      matcher = (\<lambda>s i. if take 3 (drop i s) = ''pkg'' then Some (i + 3) else None)\<rparr>"

text \<open>
  A heap for the scenarios: the object of \<open>DEFAULT_PYPI_REGEX\<close> at its address, \<open>/\.whl$/\<close>
  at address 1, \<open>/\.gz$/\<close> at 2 and \<open>/pkg/g\<close> at 3, each as just created.
\<close>

definition scenarioRegExps :: regExps where
  "scenarioRegExps =
     (\<lambda>re. pypiRegExp)(DEFAULT_PYPI_REGEX := pypiRegExp, 1 := whlAtEnd, 2 := gzAtEnd,
       3 := pkgGlobal)"

text \<open>A target whose own configuration admits wheels only.\<close>

definition wheelOnly :: baseTarget where
  "wheelOnly =
     \<lparr>target_name = ''pypi'',
      config = \<lparr>includeFiles = Some ''/[.]whl$/'', excludeFiles = None\<rparr>,
      target_filterOptions = \<lparr>includeNames = Some 1, excludeNames = None\<rparr>\<rparr>"

section \<open>Runs: collaborator calls, log lines and exceptions\<close>

text \<open>
  The release command and the GitHub target act through collaborators: the git client, the
  GitHub client, child processes, the logger. A run is the list of the calls and log lines
  it made, in order, with how it ended: \<open>Inl e\<close> when it threw \<open>e\<close>, \<open>Inr v\<close> when it
  returned \<open>v\<close>. \<open>logger.debug\<close> lines are left out.
\<close>

datatype level = LInfo | LWarn | LError | LSuccess

record publishOptions =
  keepBranch :: bool
  keepDownloads :: bool
  po_newVersion :: string
  noMerge :: bool
  noStatusCheck :: bool

record releaseParams =
  draft :: bool
  rp_name :: string
  rp_owner :: string
  prerelease :: bool
  rp_repo :: string
  rp_tag_name :: string
  target_commitish :: string
  rp_body :: "string option"

record uploadParams =
  contentLength :: nat
  contentType :: string
  up_file :: string
  up_id :: int
  up_name :: string
  up_url :: string

datatype event =
    Log level "string list"
  | LogThrown error
  | Chdir string
  | GetDefaultBranch string string
  | CheckIsRepo
  | GitStatus
  | Revparse "string list"
  | CheckoutLocalBranch string
  | Commit string "string list"
  | Push string string "string list"
  | SpawnProcess "string option" "string list" "(string \<times> string) list"
  | SleepAsync nat
  | PublishMain publishOptions
  | ProcessExit nat
  | GetReleaseByTag string string string
  | GetContent string string string string
  | CreateRelease releaseParams
  | UploadAsset uploadParams

type_synonym 'a run = "event list \<times> (error + 'a)"

definition ret :: "'a \<Rightarrow> 'a run" where
  "ret x = ([], Inr x)"

definition throw :: "error \<Rightarrow> 'a run" where
  "throw e = ([], Inl e)"

definition emit :: "event \<Rightarrow> unit run" where
  "emit ev = ([ev], Inr ())"

text \<open>A call of a collaborator: the call is recorded and ends as the collaborator answers.\<close>

definition call :: "event \<Rightarrow> error + 'a \<Rightarrow> 'a run" where
  "call ev answer = ([ev], answer)"

text \<open>Sequencing: what follows runs only when the first part returned.\<close>

definition andThen :: "'a run \<Rightarrow> ('a \<Rightarrow> 'b run) \<Rightarrow> 'b run" where
  "andThen m f =
     (case m of
        (t, Inl e) \<Rightarrow> (t, Inl e)
      | (t, Inr x) \<Rightarrow> (case f x of (t', r) \<Rightarrow> (t @ t', r)))"

text \<open>\<open>try { m } catch (e) { h e }\<close>.\<close>

definition tryCatch :: "'a run \<Rightarrow> (error \<Rightarrow> 'a run) \<Rightarrow> 'a run" where
  "tryCatch m h =
     (case m of
        (t, Inl e) \<Rightarrow> (case h e of (t', r) \<Rightarrow> (t @ t', r))
      | (t, Inr x) \<Rightarrow> (t, Inr x))"

text \<open>
  Modelled from the spec: \<open>reportError\<close> of \<open>utils/errors\<close> is imported by the release
  command, and its file is not among the sources. The spec calls every condition the release
  command reports through it a fatal failure (a dirty working tree, unpushed commits, an
  existing branch, nothing to commit: the PreconditionError of its error taxonomy, which
  aborts the pipeline), so \<open>reportError message\<close> throws an error with that message.
\<close>

definition reportError :: "string \<Rightarrow> unit run" where
  "reportError msg = throw (Error None msg)"

subsection \<open>Strings\<close>

definition quoted :: "string \<Rightarrow> string" where
  "quoted s = [CHR 0x22] @ s @ [CHR 0x22]"

text \<open>\<open>s.startsWith(p)\<close>, and \<open>s.match(/p/)\<close> for a pattern of plain characters.\<close>

definition startsWith :: "string \<Rightarrow> string \<Rightarrow> bool" where
  "startsWith s p = (take (length p) s = p)"

fun matchesPlain :: "string \<Rightarrow> string \<Rightarrow> bool" where
  "matchesPlain [] p = (p = [])"
| "matchesPlain (c # cs) p = (startsWith (c # cs) p \<or> matchesPlain cs p)"

text \<open>A template literal prints an integer in decimal.\<close>

fun decimal :: "nat \<Rightarrow> string" where
  "decimal n = (if n < 10 then [char_of (48 + n)] else decimal (n div 10) @ [char_of (48 + n mod 10)])"

declare decimal.simps [simp del]

definition showInt :: "int \<Rightarrow> string" where
  "showInt i = (if i < 0 then ''-'' @ decimal (nat (- i)) else decimal (nat i))"

section \<open>The release command (\<open>unnamed/part_002\<close>)\<close>

text \<open>
  \<open>shouldPerform()\<close> and \<open>isDryRun()\<close> come from the package \<open>dryrun\<close> and read one
  process-wide flag. The functions below take the value of \<open>shouldPerform()\<close> as their
  first argument \<open>perform\<close>.
\<close>

definition isDryRun :: "bool \<Rightarrow> bool" where
  "isDryRun perform = (\<not> perform)"

text \<open>The answer of \<open>git.status()\<close>: the fields the command reads.\<close>

record statusResult =
  current :: string
  conflicted :: "string list"
  created :: "string list"
  deleted :: "string list"
  modified :: "string list"
  renamed :: "(string \<times> string) list"
  staged :: "string list"
  ahead :: int

text \<open>
  \<open>git.status()\<close> is asked twice in a run: by \<open>checkGitState\<close>, and by \<open>commitNewVersion\<close>
  after the pre-release command has changed the working tree. The client's answer is
  therefore given for each of the two moments.
\<close>

datatype moment = BeforePreRelease | AfterPreRelease

record simpleGit =
  checkIsRepo :: "error + bool"
  git_status :: "moment \<Rightarrow> error + statusResult"
  revparse :: "string list \<Rightarrow> error + string"
  checkoutLocalBranch :: "string \<Rightarrow> error + unit"
  commit :: "string \<Rightarrow> string list \<Rightarrow> error + unit"
  push :: "string \<Rightarrow> string \<Rightarrow> string list \<Rightarrow> error + unit"

record releaseOptions =
  argv_newVersion :: string
  argv_noGitChecks :: bool
  argv_noChangelog :: bool
  argv_noPush :: bool
  argv_publish :: bool

text \<open>The fields of the project configuration that the command reads.\<close>

datatype ChangelogPolicy =
    ChangelogPolicy_None
  | ChangelogPolicy_Simple
  | ChangelogPolicy_Other string

record githubGlobalConfig =
  gh_owner :: string
  gh_repo :: string

record configuration =
  cfg_github :: githubGlobalConfig
  cfg_changelogPolicy :: "ChangelogPolicy option"
  cfg_changelog :: "string option"
  cfg_preReleaseCommand :: "string option"

record changeset =
  cs_name :: string
  cs_body :: string

text \<open>
  What the surroundings answer: the configuration loader, the file system and \<open>path\<close>
  functions of Node, the process environment, the changelog parser (\<open>utils/changes\<close>), the
  GitHub helper \<open>getDefaultBranch\<close>, the git client made for a directory, \<open>shell-quote\<close>,
  \<open>spawnProcess\<close> (\<open>utils/system\<close>), \<open>publishMain\<close> (\<open>commands/publish\<close>), and for the
  GitHub target the base64 decoder, \<open>isPreviewRelease\<close> (\<open>utils/version\<close>), \<open>statSync\<close>
  (the size of a file) and \<open>basename\<close>. None of them is in these sources; each run is
  given their answers. \<open>publishMain\<close> runs the publishing of the targets in the same process,
  under the same dry-run flag, and that publishing reads the flag (the GitHub target below
  does): its answer is therefore given for each value of \<open>shouldPerform()\<close>.
\<close>

record collaborators =
  getConfiguration :: "error + configuration"
  findConfigFile :: "string option"
  dirname :: "string \<Rightarrow> string"
  chdir :: "string \<Rightarrow> error + unit"
  relative :: "string \<Rightarrow> string \<Rightarrow> string"
  existsSync :: "string \<Rightarrow> bool"
  readFileSync :: "string \<Rightarrow> error + string"
  findChangeset :: "string \<Rightarrow> string \<Rightarrow> changeset option"
  process_env :: "string \<rightharpoonup> string"
  getDefaultBranch :: "string \<Rightarrow> string \<Rightarrow> string \<Rightarrow> error + string"
  simpleGit :: "string \<Rightarrow> simpleGit"
  shellQuote_parse :: "string \<Rightarrow> string list"
  spawnProcess :: "string option \<Rightarrow> string list \<Rightarrow> (string \<times> string) list \<Rightarrow> error + unit"
  publishMain :: "bool \<Rightarrow> publishOptions \<Rightarrow> error + unit"
  base64Decode :: "string \<Rightarrow> string"
  isPreviewRelease :: "string \<Rightarrow> bool"
  statSync :: "string \<Rightarrow> error + nat"
  basename :: "string \<Rightarrow> string"

definition DEFAULT_BUMP_VERSION_PATH :: string where
  "DEFAULT_BUMP_VERSION_PATH = ''scripts/bump-version.sh''"

definition SLEEP_BEFORE_PUBLISH_SECONDS :: nat where
  "SLEEP_BEFORE_PUBLISH_SECONDS = 30"

definition createReleaseBranch :: "bool \<Rightarrow> simpleGit \<Rightarrow> string \<Rightarrow> string run" where
  "createReleaseBranch perform git newVersion =
     (let branchName = ''release/'' @ newVersion in
      andThen
        (tryCatch (call (Revparse [branchName]) (revparse git [branchName]))
           (\<lambda>e. if \<not> matchesPlain (err_message e) ''unknown revision'' then throw e else ret ''''))
        (\<lambda>branchHead.
      andThen
        (if branchHead \<noteq> '''' then reportError (''Branch already exists: '' @ branchName)
         else ret ())
        (\<lambda>_.
      andThen
        (if perform then
           andThen (call (CheckoutLocalBranch branchName) (checkoutLocalBranch git branchName))
             (\<lambda>_. emit (Log LInfo [''Created a new release branch: '' @ branchName]))
         else emit (Log LInfo [''[dry-run] Not creating a new release branch'']))
        (\<lambda>_. ret branchName))))"

definition pushReleaseBranch :: "bool \<Rightarrow> simpleGit \<Rightarrow> string \<Rightarrow> bool \<Rightarrow> unit run" where
  "pushReleaseBranch perform git branchName pushFlag =
     (if pushFlag then
        andThen (emit (Log LInfo [''Pushing the release branch '' @ quoted branchName @ ''...'']))
          (\<lambda>_.
             if perform then call (Push ''origin'' branchName [''--set-upstream''])
                               (push git ''origin'' branchName [''--set-upstream''])
             else emit (Log LInfo [''[dry-run] Not pushing the release branch.'']))
      else
        andThen (emit (Log LInfo [''Not pushing the release branch.'']))
          (\<lambda>_. emit (Log LInfo
             [''You can push this branch later using the following command:'',
              ''  $ git push -u origin '' @ quoted branchName])))"

definition commitNewVersion :: "bool \<Rightarrow> simpleGit \<Rightarrow> string \<Rightarrow> unit run" where
  "commitNewVersion perform git newVersion =
     (let message = ''release: '' @ newVersion in
      andThen (call GitStatus (git_status git AfterPreRelease))
        (\<lambda>repoStatus.
      andThen
        (if \<not> (length (created repoStatus) \<noteq> 0 \<or> length (modified repoStatus) \<noteq> 0) then
           reportError ''Nothing to commit: has the pre-release command done its job?''
         else ret ())
        (\<lambda>_.
      andThen (emit (Log LInfo [''Committing the release changes...'']))
        (\<lambda>_.
           if perform then call (Commit message [''--all'']) (commit git message [''--all''])
           else emit (Log LInfo [''[dry-run] Not committing the changes.''])))))"

text \<open>
  The pre-release command. \<open>shell-quote\<close> and \<open>spawnProcess\<close> (of \<open>utils/system\<close>) are
  collaborators. \<open>[sysCommand, ...args] = parse(cmd)\<close> leaves \<open>sysCommand\<close> undefined
  (\<open>None\<close>) when the parsed list is empty. The child's environment is \<open>process.env\<close>
  extended by the two \<open>CRAFT_\<close> variables, which are what the call records.
\<close>

definition runPreReleaseCommand :: "collaborators \<Rightarrow> string \<Rightarrow> string option \<Rightarrow> unit run" where
  "runPreReleaseCommand env newVersion preReleaseCommand =
     (if preReleaseCommand = Some '''' then
        emit (Log LWarn [''Not running the pre-release command: no command specified''])
      else
        (let (sysCommand, args0) =
               (case preReleaseCommand of
                  Some cmd \<Rightarrow>
                    (case shellQuote_parse env cmd of [] \<Rightarrow> (None, []) | c # cs \<Rightarrow> (Some c, cs))
                | None \<Rightarrow> (Some ''/bin/bash'', [DEFAULT_BUMP_VERSION_PATH]));
             args = args0 @ ['''', newVersion];
             additionalEnv = [(''CRAFT_NEW_VERSION'', newVersion), (''CRAFT_OLD_VERSION'', '''')]
         in andThen (emit (Log LInfo [''Running a pre-release command...'']))
              (\<lambda>_. call (SpawnProcess sysCommand args additionalEnv)
                       (spawnProcess env sysCommand args additionalEnv))))"

text \<open>
  The condition of the second \<open>if\<close> of \<open>checkGitState\<close>: one of the six lists has a
  length other than 0.
\<close>

definition dirty :: "statusResult \<Rightarrow> bool" where
  "dirty repoStatus =
     (length (conflicted repoStatus) \<noteq> 0 \<or>
      length (created repoStatus) \<noteq> 0 \<or>
      length (deleted repoStatus) \<noteq> 0 \<or>
      length (modified repoStatus) \<noteq> 0 \<or>
      length (renamed repoStatus) \<noteq> 0 \<or>
      length (staged repoStatus) \<noteq> 0)"

definition checkGitState :: "simpleGit \<Rightarrow> string \<Rightarrow> bool \<Rightarrow> unit run" where
  "checkGitState git defaultBranch checkGitStatus =
     (if \<not> checkGitStatus then
        emit (Log LWarn [''Not checking the status of the local repository''])
      else
        andThen (emit (Log LInfo [''Checking the local repository status...'']))
          (\<lambda>_.
        andThen (call CheckIsRepo (checkIsRepo git))
          (\<lambda>isRepo.
             if \<not> isRepo then throw (Error None ''Not a git repository!'')
             else
               andThen (call GitStatus (git_status git BeforePreRelease))
                 (\<lambda>repoStatus.
               andThen
                 (if defaultBranch \<noteq> current repoStatus then
                    reportError
                      (''Please switch to your default branch ('' @ defaultBranch @ '') first'')
                  else ret ())
                 (\<lambda>_.
               andThen
                 (if dirty repoStatus then
                    reportError
                      (''Your repository is in a dirty state. '' @
                       ''Please stash or commit the pending changes.'')
                  else ret ())
                 (\<lambda>_.
                    if ahead repoStatus > 0 then
                      reportError
                        (''Your repository has unpushed changes: the current branch is '' @
                         showInt (ahead repoStatus) @ '' commits ahead.'')
                    else ret ()))))))"

text \<open>
  \<open>execPublish\<close> never returns: it ends the process, with code 0 when \<open>publishMain\<close> (of
  \<open>commands/publish\<close>, a collaborator here, run under the flag \<open>perform\<close>) returned and
  with code 1 when it threw. The model returns the calls made and the exit code.
\<close>

definition execPublish :: "bool \<Rightarrow> collaborators \<Rightarrow> string \<Rightarrow> event list \<times> nat" where
  "execPublish perform env newVersion =
     (let publishOptions =
            \<lparr>keepBranch = False, keepDownloads = False, po_newVersion = newVersion,
             noMerge = False, noStatusCheck = False\<rparr>;
          beginning =
            [Log LInfo [''Running the '' @ quoted ''publish'' @ '' command...''],
             Log LInfo [''Sleeping for '' @ showInt (int SLEEP_BEFORE_PUBLISH_SECONDS) @
                        '' seconds before publishing...'']] @
            (if perform then [SleepAsync (SLEEP_BEFORE_PUBLISH_SECONDS * 1000)]
             else [Log LInfo [''[dry-run] Not wasting time on sleep'']]) @
            [PublishMain publishOptions]
      in (case publishMain env perform publishOptions of
            Inr _ \<Rightarrow> (beginning @ [ProcessExit 0], 0)
          | Inl e \<Rightarrow>
              (beginning @
               [LogThrown e,
                Log LError
                  [''There was an error running '' @ quoted ''publish'' @
                   ''. Fix the issue and run the command manually:'',
                   ''  $ craft publish '' @ newVersion],
                ProcessExit 1], 1)))"

definition DEFAULT_CHANGELOG_PATH :: string where
  "DEFAULT_CHANGELOG_PATH = ''CHANGELOG.md''"

text \<open>\<open>a || b\<close> for an optional string: \<open>b\<close> when \<open>a\<close> is absent or empty.\<close>

definition orElse :: "string option \<Rightarrow> string \<Rightarrow> string" where
  "orElse a b = (case a of None \<Rightarrow> b | Some v \<Rightarrow> if v = '''' then b else v)"

definition policyName :: "ChangelogPolicy \<Rightarrow> string" where
  "policyName p =
     (case p of
        ChangelogPolicy_None \<Rightarrow> ''none''
      | ChangelogPolicy_Simple \<Rightarrow> ''simple''
      | ChangelogPolicy_Other s \<Rightarrow> s)"

text \<open>
  \<open>checkChangelog(newVersion, changelogPolicy = ChangelogPolicy.None, changelogPath =
  DEFAULT_CHANGELOG_PATH)\<close>: an absent argument takes its default.
\<close>

definition checkChangelog ::
  "collaborators \<Rightarrow> string \<Rightarrow> ChangelogPolicy option \<Rightarrow> string option \<Rightarrow> unit run" where
  "checkChangelog env newVersion changelogPolicy0 changelogPath0 =
     (let changelogPolicy = (case changelogPolicy0 of None \<Rightarrow> ChangelogPolicy_None | Some p \<Rightarrow> p);
          changelogPath = (case changelogPath0 of None \<Rightarrow> DEFAULT_CHANGELOG_PATH | Some p \<Rightarrow> p)
      in if changelogPolicy = ChangelogPolicy_None then
           emit (Log LInfo
             [''Changelog policy is set to '' @ quoted (policyName changelogPolicy) @
              '', nothing to do.''])
         else if changelogPolicy = ChangelogPolicy_Simple then
           andThen (emit (Log LInfo [''Checking the changelog...'']))
             (\<lambda>_.
                let relativePath = relative env '''' changelogPath in
                if startsWith relativePath ''.'' then
                  throw (Error None (''Invalid changelog path: '' @ quoted changelogPath))
                else if \<not> existsSync env relativePath then
                  throw (Error None (''Changelog does not exist: '' @ quoted changelogPath))
                else
                  andThen ([], readFileSync env relativePath)
                    (\<lambda>changelogString.
                       case findChangeset env changelogString newVersion of
                         None \<Rightarrow>
                           throw (Error None
                             (''No changelog entry found for version '' @ quoted newVersion))
                       | Some found \<Rightarrow>
                           if cs_body found = '''' then
                             throw (Error None
                               (''No changelog entry found for version '' @ quoted newVersion))
                           else ret ()))
         else
           throw (Error None
             (''Invalid changelog policy: '' @ quoted (policyName changelogPolicy))))"

text \<open>
  \<open>utils/github_api.ts\<close>: \<open>getGithubClient(token = '')\<close>. The authenticated client is
  represented by the token it was given.
\<close>

definition getGithubClient :: "collaborators \<Rightarrow> string \<Rightarrow> string run" where
  "getGithubClient env token =
     (if token \<noteq> '''' then ret token
      else
        (let githubApiToken =
               orElse (process_env env ''GITHUB_API_TOKEN'') ''''
         in if githubApiToken = '''' then
              throw (Error None ''GitHub target: GITHUB_API_TOKEN not found in the environment'')
            else ret githubApiToken))"

text \<open>How a run of the release command ends.\<close>

datatype terminal = Done | Failed error | Exited nat

text \<open>The body of the handler's \<open>try\<close> block.\<close>

definition handlerBody :: "bool \<Rightarrow> collaborators \<Rightarrow> releaseOptions \<Rightarrow> terminal run" where
  "handlerBody perform env argv =
     andThen ([], getConfiguration env)
       (\<lambda>config.
     let githubConfig = cfg_github config;
         configFileDir =
           dirname env (orElse (findConfigFile env) '''')
     in
     andThen (call (Chdir configFileDir) (chdir env configFileDir))
       (\<lambda>_.
     let newVersion = argv_newVersion argv in
     andThen
       (checkChangelog env newVersion
          (if argv_noChangelog argv then Some ChangelogPolicy_None else cfg_changelogPolicy config)
          (cfg_changelog config))
       (\<lambda>_.
     andThen (getGithubClient env '''')
       (\<lambda>githubClient.
     andThen
       (call (GetDefaultBranch (gh_owner githubConfig) (gh_repo githubConfig))
          (getDefaultBranch env githubClient (gh_owner githubConfig) (gh_repo githubConfig)))
       (\<lambda>defaultBranch.
     let git = simpleGit env configFileDir in
     andThen (checkGitState git defaultBranch (\<not> argv_noGitChecks argv))
       (\<lambda>_.
     andThen (emit (Log LInfo [''Preparing to release the version: '' @ newVersion]))
       (\<lambda>_.
     andThen (createReleaseBranch perform git newVersion)
       (\<lambda>branchName.
     andThen (runPreReleaseCommand env newVersion (cfg_preReleaseCommand config))
       (\<lambda>_.
     andThen (commitNewVersion perform git newVersion)
       (\<lambda>_.
     andThen (pushReleaseBranch perform git branchName (\<not> argv_noPush argv))
       (\<lambda>_.
     if argv_publish argv then
       (case execPublish perform env newVersion of (t, exitCode) \<Rightarrow> (t, Inr (Exited exitCode)))
     else
       andThen
         (emit (Log LSuccess
            [''Done. Do not forget to run '' @ quoted ''craft publish'' @
             '' to publish the artifacts:'',
             ''  $ craft publish '' @ newVersion]))
         (\<lambda>_. ret Done))))))))))))"

text \<open>
  The handler: the note on dry-run mode, the \<open>try\<close> block, and the \<open>catch\<close> that logs
  what was thrown. It returns the calls made and how the run ended.
\<close>

definition handler :: "bool \<Rightarrow> collaborators \<Rightarrow> releaseOptions \<Rightarrow> event list \<times> terminal" where
  "handler perform env argv =
     (let note = (if isDryRun perform then [Log LInfo [''[dry-run] Dry-run mode is on!'']] else [])
      in case handlerBody perform env argv of
           (t, Inr ending) \<Rightarrow> (note @ t, ending)
         | (t, Inl e) \<Rightarrow> (note @ t @ [LogThrown e], Failed e))"

section \<open>The GitHub target (\<open>unnamed/part_001\<close>)\<close>


record githubRelease =
  release_id :: int
  tag_name :: string
  upload_url :: string

text \<open>The GitHub client: what each of the four API calls answers.\<close>

record githubClient =
  getReleaseByTag :: "string \<Rightarrow> string \<Rightarrow> string \<Rightarrow> error + githubRelease"
  getContent :: "string \<Rightarrow> string \<Rightarrow> string \<Rightarrow> string \<Rightarrow> error + string"
  createRelease :: "releaseParams \<Rightarrow> error + githubRelease"
  uploadAsset :: "uploadParams \<Rightarrow> error + unit"

text \<open>
  \<open>this.githubConfig\<close> as the constructor leaves it: \<open>tagPrefix\<close> is a string (empty when
  not configured) and \<open>previewReleases\<close> a boolean (true when not configured).
\<close>

record githubTargetConfig = githubGlobalConfig +
  gh_changelog :: "string option"
  tagPrefix :: string
  previewReleases :: bool

record githubTarget =
  base :: baseTarget
  githubConfig :: githubTargetConfig
  github :: githubClient






section \<open>The PyPI target (the second module held by \<open>src/utils/github_api.ts\<close>)\<close>






section \<open>Vocabulary for the properties of runs\<close>

text \<open>
  The state-changing collaborator calls: creating a branch, committing, pushing, creating a
  release, uploading an asset.
\<close>

fun mutating :: "event \<Rightarrow> bool" where
  "mutating (CheckoutLocalBranch b) = True"
| "mutating (Commit m opts) = True"
| "mutating (Push r b opts) = True"
| "mutating (CreateRelease p) = True"
| "mutating (UploadAsset p) = True"
| "mutating ev = False"

text \<open>A run part is calm when it holds no state-changing call.\<close>

definition calm :: "event list \<Rightarrow> bool" where
  "calm t = list_all (\<lambda>ev. \<not> mutating ev) t"

text \<open>
  The calls of \<open>createReleaseBranch\<close>: looking the branch up and creating it. A run without
  them has not attempted branch creation.
\<close>

fun branchCreation :: "event \<Rightarrow> bool" where
  "branchCreation (Revparse r) = True"
| "branchCreation (CheckoutLocalBranch b) = True"
| "branchCreation ev = False"

text \<open>
  What stands inside the branches of a \<open>shouldPerform()\<close> test of the release command and
  of the GitHub target: the state-changing calls, the sleep before publishing, the log lines
  that start with \<open>[dry-run]\<close>, the line that reports the branch created and the line that
  announces the creation of a release. \<open>common\<close> is a run part without them: the calls and
  log lines made outside those branches.
\<close>

fun gated :: "event \<Rightarrow> bool" where
  "gated (Log LInfo [msg]) =
     (startsWith msg ''[dry-run]'' \<or> startsWith msg ''Created a new release branch: '' \<or>
      startsWith msg ''Creating a new '')"
| "gated (SleepAsync n) = True"
| "gated ev = mutating ev"

definition common :: "event list \<Rightarrow> event list" where
  "common t = filter (\<lambda>ev. \<not> gated ev) t"

text \<open>
  Two runs agree when they end alike (the same value returned or the same error thrown) and
  make the same calls and log lines outside the gated branches, in the same order.
\<close>

definition agree :: "'a run \<Rightarrow> 'a run \<Rightarrow> bool" where
  "agree m1 m2 = (common (fst m1) = common (fst m2) \<and> snd m1 = snd m2)"


text \<open>The git client the handler makes: the one for the directory of the configuration file.\<close>

definition releaseGit :: "collaborators \<Rightarrow> simpleGit" where
  "releaseGit env = simpleGit env (dirname env (orElse (findConfigFile env) ''''))"




section \<open>A concrete release\<close>

text \<open>
  A repository on \<open>master\<close> with a clean tree, where no branch \<open>release/1.2.0\<close> exists and
  the pre-release command modifies \<open>package.json\<close>; every call succeeds. The project has
  no changelog policy and the default pre-release command.
\<close>

definition cleanStatus :: statusResult where
  "cleanStatus =
     \<lparr>current = ''master'', conflicted = [], created = [], deleted = [], modified = [],
      renamed = [], staged = [], ahead = 0\<rparr>"

definition scenarioGit :: simpleGit where
  "scenarioGit =
     \<lparr>checkIsRepo = Inr True,
      git_status =
        (\<lambda>m. case m of
           BeforePreRelease \<Rightarrow> Inr cleanStatus
         | AfterPreRelease \<Rightarrow> Inr (cleanStatus\<lparr>modified := [''package.json'']\<rparr>)),
      revparse = (\<lambda>r. Inl (Error None ''fatal: unknown revision'')),
      checkoutLocalBranch = (\<lambda>b. Inr ()),
      commit = (\<lambda>m opts. Inr ()),
      push = (\<lambda>r b opts. Inr ())\<rparr>"

definition scenarioEnv :: collaborators where
  "scenarioEnv =
     \<lparr>getConfiguration =
        Inr \<lparr>cfg_github = \<lparr>gh_owner = ''getsentry'', gh_repo = ''craft''\<rparr>,
             cfg_changelogPolicy = None, cfg_changelog = None, cfg_preReleaseCommand = None\<rparr>,
      findConfigFile = Some ''/repo/.craft.yml'',
      dirname = (\<lambda>p. ''/repo''),
      chdir = (\<lambda>d. Inr ()),
      relative = (\<lambda>from to. to),
      existsSync = (\<lambda>p. True),
      readFileSync = (\<lambda>p. Inr ''''),
      findChangeset = (\<lambda>text v. None),
      process_env = [''GITHUB_API_TOKEN'' \<mapsto> ''secret''],
      getDefaultBranch = (\<lambda>token owner repo. Inr ''master''),
      simpleGit = (\<lambda>d. scenarioGit),
      shellQuote_parse = (\<lambda>cmd. [cmd]),
      spawnProcess = (\<lambda>cmd args vars. Inr ()),
      publishMain = (\<lambda>perform opts. Inr ()),
      base64Decode = (\<lambda>s. s),
      isPreviewRelease = (\<lambda>v. False),
      statSync = (\<lambda>p. Inr 1024),
      basename = (\<lambda>p. drop 5 p)\<rparr>"

definition scenarioArgv :: releaseOptions where
  "scenarioArgv =
     \<lparr>argv_newVersion = ''1.2.0'', argv_noGitChecks = False, argv_noChangelog = False,
      argv_noPush = False, argv_publish = False\<rparr>"

text \<open>The same surroundings with another git client.\<close>

definition withGit :: "collaborators \<Rightarrow> simpleGit \<Rightarrow> collaborators" where
  "withGit env g = env\<lparr>simpleGit := (\<lambda>d. g)\<rparr>"









text \<open>The same repository with one staged file.\<close>

definition stagedGit :: simpleGit where
  "stagedGit =
     scenarioGit\<lparr>git_status := (\<lambda>m. Inr (cleanStatus\<lparr>staged := [''README.md'']\<rparr>))\<rparr>"

section \<open>Properties of the artifact store\<close>

subsection \<open>The download cache\<close>

lemma downloadedUrls_append:
  "downloadedUrls (cs @ ds) = downloadedUrls cs @ downloadedUrls ds"
  by (induction cs rule: downloadedUrls.induct) simp_all

lemma downloadArtifact_keeps_invariant:
  "cached_downloads st \<Longrightarrow> cached_downloads (snd (downloadArtifact st a))"
  by (auto simp: cached_downloads_def downloadArtifact_def Let_def downloadedUrls_append
      split: option.splits)

lemma downloadArtifacts_keeps_invariant:
  "cached_downloads st \<Longrightarrow> cached_downloads (snd (downloadArtifacts st as))"
proof (induction as arbitrary: st)
  case Nil
  then show ?case by simp
next
  case (Cons a as)
  from Cons.prems have "cached_downloads (snd (downloadArtifact st a))"
    by (rule downloadArtifact_keeps_invariant)
  from Cons.IH [OF this] show ?case
    by (auto split: prod.splits)
qed

lemma listArtifactsForRevision_keeps_invariant:
  "cached_downloads st \<Longrightarrow> cached_downloads (snd (listArtifactsForRevision st r))"
  by (auto simp: cached_downloads_def listArtifactsForRevision_def Let_def downloadedUrls_append
      split: option.splits)

lemma filterArtifactsForRevision_state:
  "fst (snd (filterArtifactsForRevision st h r fo)) = snd (listArtifactsForRevision st r)"
  by (simp add: filterArtifactsForRevision_def Let_def split: prod.splits sum.splits option.splits)

lemma serve_keeps_invariant: "cached_downloads st \<Longrightarrow> cached_downloads (serve st rq)"
  by (cases rq)
    (simp_all add: downloadArtifact_keeps_invariant downloadArtifacts_keeps_invariant
      listArtifactsForRevision_keeps_invariant filterArtifactsForRevision_state)

lemma lifetime_keeps_invariant: "cached_downloads st \<Longrightarrow> cached_downloads (lifetime st rs)"
  unfolding lifetime_def
  by (induction rs arbitrary: st) (simp_all add: serve_keeps_invariant)

lemma new_store_invariant: "cached_downloads (newZeusStore c owner repo)"
  by (simp add: cached_downloads_def newZeusStore_def)

lemma distinct_count_le_1: "distinct xs \<Longrightarrow> length (filter (\<lambda>x. x = u) xs) \<le> 1"
  by (induction xs) (auto simp: filter_empty_conv)

text \<open>An entry of the download cache is never replaced or removed.\<close>

lemma downloadArtifact_keeps_download:
  "downloadCache st u = Some p \<Longrightarrow> downloadCache (snd (downloadArtifact st a)) u = Some p"
  by (auto simp: downloadArtifact_def Let_def split: option.splits)

lemma downloadArtifacts_keeps_download:
  "downloadCache st u = Some p \<Longrightarrow> downloadCache (snd (downloadArtifacts st as)) u = Some p"
proof (induction as arbitrary: st)
  case Nil
  then show ?case by simp
next
  case (Cons a as)
  from Cons.prems have "downloadCache (snd (downloadArtifact st a)) u = Some p"
    by (rule downloadArtifact_keeps_download)
  from Cons.IH [OF this] show ?case
    by (auto split: prod.splits)
qed

lemma listArtifactsForRevision_keeps_download:
  "downloadCache (snd (listArtifactsForRevision st r)) = downloadCache st"
  by (auto simp: listArtifactsForRevision_def Let_def split: option.splits)

lemma serve_keeps_download:
  "downloadCache st u = Some p \<Longrightarrow> downloadCache (serve st rq) u = Some p"
  by (cases rq)
    (simp_all add: downloadArtifact_keeps_download downloadArtifacts_keeps_download
      listArtifactsForRevision_keeps_download filterArtifactsForRevision_state)

lemma lifetime_keeps_download:
  "downloadCache st u = Some p \<Longrightarrow> downloadCache (lifetime st rs) u = Some p"
  unfolding lifetime_def
  by (induction rs arbitrary: st) (simp_all add: serve_keeps_download)

lemma downloadArtifact_caches:
  "downloadArtifact st a = (p, st1) \<Longrightarrow> downloadCache st1 (download_url a) = Some p"
  by (auto simp: downloadArtifact_def Let_def split: option.splits)

lemma downloadArtifact_hit:
  "downloadCache st (download_url b) = Some p \<Longrightarrow> downloadArtifact st b = (p, st)"
  by (simp add: downloadArtifact_def)

lemma downloadArtifact_again:
  assumes "downloadArtifact st a = (p, st1)" and "download_url b = download_url a"
  shows "downloadArtifact (lifetime st1 rs) b = (p, lifetime st1 rs)"
proof -
  from assms have "downloadCache st1 (download_url b) = Some p"
    by (simp add: downloadArtifact_caches)
  then have "downloadCache (lifetime st1 rs) (download_url b) = Some p"
    by (rule lifetime_keeps_download)
  then show ?thesis by (rule downloadArtifact_hit)
qed

lemma scenario_download:
  "downloadArtifact scenarioStore wheel =
     (Promise 0 (Inl (Error None ''ECONNRESET'')),
      scenarioStore\<lparr>downloadCache := [''https://zeus.example/1'' \<mapsto> Promise 0 (Inl (Error None ''ECONNRESET''))],
        issued := [DownloadCall wheel]\<rparr>)"
  by (simp add: downloadArtifact_def scenarioStore_def newZeusStore_def scenarioClient_def Let_def
      wheel_def)

text \<open>
  Claim C3. Over the whole lifetime of a store, whatever is requested of it, the transport
  download of one \<open>download_url\<close> is issued at most once. And once \<open>downloadArtifact\<close> has
  answered for an artifact, a later call for an artifact with the same \<open>download_url\<close>,
  however many other requests were made in between and whether or not the first promise has
  settled, issues no transport call (the store is unchanged) and returns the very promise
  of the first call, so both resolve to the same path.
\<close>

theorem downloadArtifact_at_most_once:
  "length (filter (\<lambda>url. url = u)
     (downloadedUrls (issued (lifetime (newZeusStore c owner repo) rs)))) \<le> 1 \<and>
   (\<forall>p st1. downloadArtifact st a = (p, st1) \<and> download_url b = download_url a \<longrightarrow>
      downloadArtifact (lifetime st1 rs') b = (p, lifetime st1 rs'))"
proof
  have "cached_downloads (lifetime (newZeusStore c owner repo) rs)"
    by (simp add: lifetime_keeps_invariant new_store_invariant)
  then show "length (filter (\<lambda>url. url = u)
     (downloadedUrls (issued (lifetime (newZeusStore c owner repo) rs)))) \<le> 1"
    unfolding cached_downloads_def by (blast intro: distinct_count_le_1)
next
  show "\<forall>p st1. downloadArtifact st a = (p, st1) \<and> download_url b = download_url a \<longrightarrow>
      downloadArtifact (lifetime st1 rs') b = (p, lifetime st1 rs')"
    by (blast intro: downloadArtifact_again)
qed

theorem downloadArtifact_at_most_once_witness:
  "length (filter (\<lambda>url. url = ''https://zeus.example/1'')
     (downloadedUrls (issued (lifetime scenarioStore [Download wheel, Listing ''abc123'', Download wheel])))) \<le> 1 \<and>
   download_url (wheel\<lparr>name := ''again.whl''\<rparr>) = download_url wheel \<and>
   downloadArtifact (lifetime (snd (downloadArtifact scenarioStore wheel)) [Listing ''abc123'', Download sdist])
       (wheel\<lparr>name := ''again.whl''\<rparr>) =
     (Promise 0 (Inl (Error None ''ECONNRESET'')),
      lifetime (snd (downloadArtifact scenarioStore wheel)) [Listing ''abc123'', Download sdist])"
proof -
  have first: "downloadArtifact scenarioStore wheel =
      (Promise 0 (Inl (Error None ''ECONNRESET'')), snd (downloadArtifact scenarioStore wheel))"
    by (simp add: scenario_download)
  have same: "download_url (wheel\<lparr>name := ''again.whl''\<rparr>) = download_url wheel"
    by simp
  from downloadArtifact_at_most_once [of "''https://zeus.example/1''" scenarioClient "''getsentry''"
      "''craft''" "[Download wheel, Listing ''abc123'', Download wheel]" scenarioStore wheel
      "wheel\<lparr>name := ''again.whl''\<rparr>" "[Listing ''abc123'', Download sdist]"] first same
  show ?thesis
    unfolding scenarioStore_def by blast
qed

text \<open>
  Claim C10. When a \<open>downloadArtifact\<close> call answers with a promise that rejects, that
  promise is the cache entry of the \<open>download_url\<close>; every later call for the same
  \<open>download_url\<close>, after any other requests, returns this promise, hence the same failure,
  and issues no transport call. No request makes the store try again.
\<close>

theorem failed_download_is_cached:
  "downloadArtifact st a = (p, st1) \<and> settled p = Inl e \<and> download_url b = download_url a \<longrightarrow>
     downloadCache st1 (download_url a) = Some p \<and>
     fst (downloadArtifact (lifetime st1 rs) b) = p \<and>
     settled (fst (downloadArtifact (lifetime st1 rs) b)) = Inl e \<and>
     issued (snd (downloadArtifact (lifetime st1 rs) b)) = issued (lifetime st1 rs)"
proof (intro impI, elim conjE)
  assume d: "downloadArtifact st a = (p, st1)" and e: "settled p = Inl e"
    and u: "download_url b = download_url a"
  have "downloadArtifact (lifetime st1 rs) b = (p, lifetime st1 rs)"
    using d u by (rule downloadArtifact_again)
  with d e show "downloadCache st1 (download_url a) = Some p \<and>
     fst (downloadArtifact (lifetime st1 rs) b) = p \<and>
     settled (fst (downloadArtifact (lifetime st1 rs) b)) = Inl e \<and>
     issued (snd (downloadArtifact (lifetime st1 rs) b)) = issued (lifetime st1 rs)"
    by (simp add: downloadArtifact_caches)
qed

theorem failed_download_is_cached_witness:
  "downloadArtifact scenarioStore wheel =
     (Promise 0 (Inl (Error None ''ECONNRESET'')), snd (downloadArtifact scenarioStore wheel)) \<and>
   client_downloadArtifact scenarioClient 1 wheel = Inr ''/tmp/pkg-1.0.0.whl'' \<and>
   settled (fst (downloadArtifact
       (lifetime (snd (downloadArtifact scenarioStore wheel)) [Download sdist, Listing ''abc123'']) wheel)) =
     Inl (Error None ''ECONNRESET'') \<and>
   issued (snd (downloadArtifact
       (lifetime (snd (downloadArtifact scenarioStore wheel)) [Download sdist, Listing ''abc123'']) wheel)) =
     issued (lifetime (snd (downloadArtifact scenarioStore wheel)) [Download sdist, Listing ''abc123''])"
proof -
  have first: "downloadArtifact scenarioStore wheel =
      (Promise 0 (Inl (Error None ''ECONNRESET'')), snd (downloadArtifact scenarioStore wheel))"
    by (simp add: scenario_download)
  have retry: "client_downloadArtifact scenarioClient 1 wheel = Inr ''/tmp/pkg-1.0.0.whl''"
    by (simp add: scenarioClient_def wheel_def)
  have failed: "settled (Promise 0 (Inl (Error None ''ECONNRESET'')) :: string promise) =
      Inl (Error None ''ECONNRESET'')"
    by simp
  from failed_download_is_cached [of scenarioStore wheel "Promise 0 (Inl (Error None ''ECONNRESET''))"
      "snd (downloadArtifact scenarioStore wheel)" "Error None ''ECONNRESET''" wheel
      "[Download sdist, Listing ''abc123'']"] first retry failed
  show ?thesis by blast
qed

subsection \<open>Listing and filtering\<close>

lemma listArtifactsForRevision_keeps_listing:
  "fileListCache st r = Some p \<Longrightarrow> fileListCache (snd (listArtifactsForRevision st r')) r = Some p"
  by (auto simp: listArtifactsForRevision_def Let_def split: option.splits)

lemma downloadArtifact_keeps_listing:
  "fileListCache (snd (downloadArtifact st a)) = fileListCache st"
  by (auto simp: downloadArtifact_def Let_def split: option.splits)

lemma downloadArtifacts_keeps_listing:
  "fileListCache (snd (downloadArtifacts st as)) = fileListCache st"
proof (induction as arbitrary: st)
  case Nil
  then show ?case by simp
next
  case (Cons a as)
  have "fileListCache (snd (downloadArtifacts (snd (downloadArtifact st a)) as)) = fileListCache st"
    by (simp add: Cons.IH downloadArtifact_keeps_listing)
  then show ?case
    by (auto split: prod.splits)
qed

lemma serve_keeps_listing:
  "fileListCache st r = Some p \<Longrightarrow> fileListCache (serve st rq) r = Some p"
  by (cases rq)
    (simp_all add: downloadArtifact_keeps_listing downloadArtifacts_keeps_listing
      listArtifactsForRevision_keeps_listing filterArtifactsForRevision_state)

lemma lifetime_keeps_listing:
  "fileListCache st r = Some p \<Longrightarrow> fileListCache (lifetime st rs) r = Some p"
  unfolding lifetime_def
  by (induction rs arbitrary: st) (simp_all add: serve_keeps_listing)

lemma listArtifactsForRevision_caches:
  "listArtifactsForRevision st r = (p, st1) \<Longrightarrow> fileListCache st1 r = Some p"
  by (auto simp: listArtifactsForRevision_def Let_def split: option.splits)

lemma listArtifactsForRevision_hit:
  "fileListCache st r = Some p \<Longrightarrow> listArtifactsForRevision st r = (p, st)"
  by (simp add: listArtifactsForRevision_def)

lemma listArtifactsForRevision_again:
  assumes "listArtifactsForRevision st r = (p, st1)"
  shows "listArtifactsForRevision (lifetime st1 rs) r = (p, lifetime st1 rs)"
proof -
  from assms have "fileListCache st1 r = Some p"
    by (rule listArtifactsForRevision_caches)
  then have "fileListCache (lifetime st1 rs) r = Some p"
    by (rule lifetime_keeps_listing)
  then show ?thesis by (rule listArtifactsForRevision_hit)
qed

lemma filterByTest_subset: "set (fst (filterByTest keep re h as)) \<subseteq> set as"
proof (induction as arbitrary: h)
  case Nil
  show ?case by simp
next
  case (Cons a as)
  obtain m h1 where t: "testAt h re (name a) = (m, h1)"
    by (cases "testAt h re (name a)")
  obtain kept h2 where k: "filterByTest keep re h1 as = (kept, h2)"
    by (cases "filterByTest keep re h1 as")
  from Cons.IH [of h1] k have "set kept \<subseteq> set as" by simp
  with t k show ?case by auto
qed

lemma filterIfPresent_subset: "set (fst (filterIfPresent keep re h as)) \<subseteq> set as"
  by (cases re) (simp_all add: filterIfPresent_def filterByTest_subset)

lemma test_stateless: "stateless re \<Longrightarrow> test re s = (matches re s, re)"
  by (simp add: test_def regExpBuiltinExec_def stateless_def matches_def Let_def
      split: option.splits)

lemma testAt_stateless: "stateless (h re) \<Longrightarrow> testAt h re s = (matches (h re) s, h)"
  by (simp add: testAt_def test_stateless)

lemma filterByTest_stateless:
  "stateless (h re) \<Longrightarrow>
     filterByTest keep re h as = (filter (\<lambda>a. matches (h re) (name a) = keep) as, h)"
  by (induction as) (simp_all add: testAt_stateless)

lemma filterIfPresent_include:
  "statelessOptions h opts \<Longrightarrow>
     filterIfPresent True (includeNames opts) h as = (filter (matchesInclude h opts) as, h)"
  by (cases "includeNames opts")
    (auto simp: statelessOptions_def filterIfPresent_def filterByTest_stateless matchesInclude_def
      intro: filter_cong)

lemma filterIfPresent_exclude:
  "statelessOptions h opts \<Longrightarrow>
     filterIfPresent False (excludeNames opts) h as =
       (filter (\<lambda>a. \<not> matchesExclude h opts a) as, h)"
  by (cases "excludeNames opts")
    (auto simp: statelessOptions_def filterIfPresent_def filterByTest_stateless matchesExclude_def
      intro: filter_cong)

lemma filterArtifactsForRevision_of_listing:
  assumes "listArtifactsForRevision st r = (p, st1)"
  shows "filterArtifactsForRevision st h r fo =
    (case settled p of
       Inl e \<Rightarrow> (Inl e, st1, h)
     | Inr listed \<Rightarrow>
         (case fo of
            None \<Rightarrow> (Inr listed, st1, h)
          | Some opts \<Rightarrow>
              (Inr (fst (filterIfPresent False (excludeNames opts)
                      (snd (filterIfPresent True (includeNames opts) h listed))
                      (fst (filterIfPresent True (includeNames opts) h listed)))),
               st1,
               snd (filterIfPresent False (excludeNames opts)
                      (snd (filterIfPresent True (includeNames opts) h listed))
                      (fst (filterIfPresent True (includeNames opts) h listed))))))"
  using assms
  by (simp add: filterArtifactsForRevision_def split: sum.splits option.splits prod.splits)

lemma filterArtifactsForRevision_stateless:
  assumes "listArtifactsForRevision st r = (p, st1)" and "statelessOptions h opts"
  shows "filterArtifactsForRevision st h r (Some opts) =
    (map_sum id
       (\<lambda>listed. filter (\<lambda>a. \<not> matchesExclude h opts a) (filter (matchesInclude h opts) listed))
       (settled p), st1, h)"
  by (simp add: filterArtifactsForRevision_of_listing [OF assms(1)]
      filterIfPresent_include [OF assms(2)] filterIfPresent_exclude [OF assms(2)]
      split: sum.splits)

lemma filtered_subset:
  assumes "listArtifactsForRevision st r = (p, st1)"
    and "filterArtifactsForRevision st h r fo = (Inr xs, st2, h')"
  shows "\<exists>ys. settled p = Inr ys \<and> set xs \<subseteq> set ys"
proof (cases "settled p")
  case (Inl e)
  with assms(2) show ?thesis
    unfolding filterArtifactsForRevision_of_listing [OF assms(1)] by simp
next
  case (Inr listed)
  show ?thesis
  proof (cases fo)
    case None
    with Inr assms(2) show ?thesis
      unfolding filterArtifactsForRevision_of_listing [OF assms(1)] by simp
  next
    case (Some opts)
    let ?included = "fst (filterIfPresent True (includeNames opts) h listed)"
    let ?h1 = "snd (filterIfPresent True (includeNames opts) h listed)"
    from Some Inr assms(2)
    have "xs = fst (filterIfPresent False (excludeNames opts) ?h1 ?included)"
      unfolding filterArtifactsForRevision_of_listing [OF assms(1)] by simp
    moreover have "set (fst (filterIfPresent False (excludeNames opts) ?h1 ?included)) \<subseteq> set ?included"
      by (rule filterIfPresent_subset)
    moreover have "set ?included \<subseteq> set listed"
      by (rule filterIfPresent_subset)
    ultimately have "set xs \<subseteq> set listed" by blast
    with Inr show ?thesis by simp
  qed
qed

lemma filter_result_state:
  assumes "filterArtifactsForRevision st h r fo = (res, st1, h')"
  shows "\<exists>p. listArtifactsForRevision st r = (p, st1)"
  using assms filterArtifactsForRevision_state [of st h r fo]
  by (cases "listArtifactsForRevision st r") auto

lemma scenario_listing:
  "listArtifactsForRevision scenarioStore ''abc123'' =
     (Promise 0 (Inr scenarioListing),
      scenarioStore\<lparr>fileListCache := [''abc123'' \<mapsto> Promise 0 (Inr scenarioListing)],
        issued := [ListCall ''getsentry'' ''craft'' ''abc123'']\<rparr>)"
  by (simp add: listArtifactsForRevision_def scenarioStore_def newZeusStore_def scenarioClient_def Let_def)

lemma scenario_heap:
  "scenarioRegExps DEFAULT_PYPI_REGEX = pypiRegExp" "scenarioRegExps 1 = whlAtEnd"
  "scenarioRegExps (Suc 0) = whlAtEnd" "scenarioRegExps 2 = gzAtEnd" "scenarioRegExps 3 = pkgGlobal"
  by (simp_all add: scenarioRegExps_def DEFAULT_PYPI_REGEX_def)

lemma scenario_names:
  "matches pypiRegExp ''pkg-1.0.0.whl''" "matches pypiRegExp ''pkg-1.0.0.tar.gz''"
  "\<not> matches pypiRegExp ''readme.txt''"
  "matches whlAtEnd ''pkg-1.0.0.whl''" "\<not> matches whlAtEnd ''pkg-1.0.0.tar.gz''"
  "\<not> matches whlAtEnd ''readme.txt''"
  "\<not> matches gzAtEnd ''pkg-1.0.0.whl''" "matches gzAtEnd ''pkg-1.0.0.tar.gz''"
  "\<not> matches gzAtEnd ''readme.txt''"
  "matches pkgGlobal ''pkg-1.0.0.tar.gz''"
  by (simp_all add: matches_def pypiRegExp_def whlAtEnd_def gzAtEnd_def pkgGlobal_def
      literalsAtEnd_def)

lemma scenario_stateless: "stateless pypiRegExp" "stateless whlAtEnd" "stateless gzAtEnd"
  by (simp_all add: stateless_def pypiRegExp_def whlAtEnd_def gzAtEnd_def)


lemma scenario_filtered:
  "filterArtifactsForRevision scenarioStore scenarioRegExps ''abc123''
       (Some \<lparr>includeNames = Some DEFAULT_PYPI_REGEX, excludeNames = None\<rparr>) =
     (Inr [wheel, sdist], snd (listArtifactsForRevision scenarioStore ''abc123''), scenarioRegExps)"
proof -
  have s: "statelessOptions scenarioRegExps
      \<lparr>includeNames = Some DEFAULT_PYPI_REGEX, excludeNames = None\<rparr>"
    by (simp add: statelessOptions_def scenario_heap scenario_stateless)
  have l: "listArtifactsForRevision scenarioStore ''abc123'' =
      (Promise 0 (Inr scenarioListing), snd (listArtifactsForRevision scenarioStore ''abc123''))"
    by (simp add: scenario_listing)
  show ?thesis
    unfolding filterArtifactsForRevision_stateless [OF l s]
    by (simp add: matchesInclude_def matchesExclude_def scenarioListing_def scenario_heap
        scenario_names wheel_def sdist_def readme_def)
qed

text \<open>
  Claim C4. Whatever \<open>filterArtifactsForRevision\<close> returns for a revision and a filter is a
  subset of what \<open>listArtifactsForRevision\<close> resolves to for that revision: when both are
  asked of the same store, when the listing is asked first and the filter later, and when
  the filter is asked first and the listing later (the listing is fetched once, so both see
  the same answer of the service). This holds for every regular expression, with or without
  the g and y flags, and whatever objects the options share.
\<close>

theorem filterArtifactsForRevision_subset:
  "(\<forall>p st1 xs st2 h'.
      listArtifactsForRevision st r = (p, st1) \<and>
      filterArtifactsForRevision st h r fo = (Inr xs, st2, h') \<longrightarrow>
      (\<exists>ys. settled p = Inr ys \<and> set xs \<subseteq> set ys)) \<and>
   (\<forall>p st1 xs st2 h'.
      listArtifactsForRevision st r = (p, st1) \<and>
      filterArtifactsForRevision (lifetime st1 rs) h r fo = (Inr xs, st2, h') \<longrightarrow>
      (\<exists>ys. settled p = Inr ys \<and> set xs \<subseteq> set ys)) \<and>
   (\<forall>xs st1 h' p st2.
      filterArtifactsForRevision st h r fo = (Inr xs, st1, h') \<and>
      listArtifactsForRevision (lifetime st1 rs) r = (p, st2) \<longrightarrow>
      (\<exists>ys. settled p = Inr ys \<and> set xs \<subseteq> set ys))"
proof (intro conjI allI impI)
  fix p st1 xs st2 h'
  assume "listArtifactsForRevision st r = (p, st1) \<and>
      filterArtifactsForRevision st h r fo = (Inr xs, st2, h')"
  then show "\<exists>ys. settled p = Inr ys \<and> set xs \<subseteq> set ys"
    by (blast intro: filtered_subset)
next
  fix p st1 xs st2 h'
  assume a: "listArtifactsForRevision st r = (p, st1) \<and>
      filterArtifactsForRevision (lifetime st1 rs) h r fo = (Inr xs, st2, h')"
  then have "listArtifactsForRevision (lifetime st1 rs) r = (p, lifetime st1 rs)"
    by (blast intro: listArtifactsForRevision_again)
  with a show "\<exists>ys. settled p = Inr ys \<and> set xs \<subseteq> set ys"
    by (blast intro: filtered_subset)
next
  fix xs st1 h' p st2
  assume a: "filterArtifactsForRevision st h r fo = (Inr xs, st1, h') \<and>
      listArtifactsForRevision (lifetime st1 rs) r = (p, st2)"
  then obtain q where q: "listArtifactsForRevision st r = (q, st1)"
    using filter_result_state by blast
  then have "listArtifactsForRevision (lifetime st1 rs) r = (q, lifetime st1 rs)"
    by (rule listArtifactsForRevision_again)
  with a have "q = p" by simp
  with a q show "\<exists>ys. settled p = Inr ys \<and> set xs \<subseteq> set ys"
    by (blast intro: filtered_subset)
qed

theorem filterArtifactsForRevision_subset_witness:
  "listArtifactsForRevision scenarioStore ''abc123'' =
     (Promise 0 (Inr scenarioListing), snd (listArtifactsForRevision scenarioStore ''abc123'')) \<and>
   filterArtifactsForRevision scenarioStore scenarioRegExps ''abc123''
       (Some \<lparr>includeNames = Some DEFAULT_PYPI_REGEX, excludeNames = None\<rparr>) =
     (Inr [wheel, sdist], snd (listArtifactsForRevision scenarioStore ''abc123''),
      scenarioRegExps) \<and>
   filterArtifactsForRevision
       (lifetime (snd (listArtifactsForRevision scenarioStore ''abc123'')) [Download wheel, Listing ''abc123''])
       scenarioRegExps ''abc123''
       (Some \<lparr>includeNames = Some DEFAULT_PYPI_REGEX, excludeNames = None\<rparr>) =
     (Inr [wheel, sdist],
      lifetime (snd (listArtifactsForRevision scenarioStore ''abc123'')) [Download wheel, Listing ''abc123''],
      scenarioRegExps) \<and>
   listArtifactsForRevision
       (lifetime (snd (listArtifactsForRevision scenarioStore ''abc123'')) [Download wheel, Listing ''abc123''])
       ''abc123'' =
     (Promise 0 (Inr scenarioListing),
      lifetime (snd (listArtifactsForRevision scenarioStore ''abc123'')) [Download wheel, Listing ''abc123'']) \<and>
   (\<exists>ys. settled (Promise 0 (Inr scenarioListing)) = Inr ys \<and> set [wheel, sdist] \<subseteq> set ys)"
proof -
  let ?st1 = "snd (listArtifactsForRevision scenarioStore ''abc123'')"
  let ?later = "lifetime ?st1 [Download wheel, Listing ''abc123'']"
  let ?opts = "\<lparr>includeNames = Some DEFAULT_PYPI_REGEX, excludeNames = None\<rparr>"
  have s: "statelessOptions scenarioRegExps ?opts"
    by (simp add: statelessOptions_def scenario_heap scenario_stateless)
  have kept: "map_sum id
       (\<lambda>listed. filter (\<lambda>a. \<not> matchesExclude scenarioRegExps ?opts a)
          (filter (matchesInclude scenarioRegExps ?opts) listed))
       (settled (Promise 0 (Inr scenarioListing))) =
     Inr [wheel, sdist]"
    by (simp add: matchesInclude_def matchesExclude_def scenarioListing_def scenario_heap
        scenario_names wheel_def sdist_def readme_def)
  have l: "listArtifactsForRevision scenarioStore ''abc123'' = (Promise 0 (Inr scenarioListing), ?st1)"
    by (simp add: scenario_listing)
  have f: "filterArtifactsForRevision scenarioStore scenarioRegExps ''abc123'' (Some ?opts) =
      (Inr [wheel, sdist], ?st1, scenarioRegExps)"
    by (simp only: filterArtifactsForRevision_stateless [OF l s] kept)
  have l': "listArtifactsForRevision ?later ''abc123'' = (Promise 0 (Inr scenarioListing), ?later)"
    by (rule listArtifactsForRevision_again [OF l])
  have f': "filterArtifactsForRevision ?later scenarioRegExps ''abc123'' (Some ?opts) =
      (Inr [wheel, sdist], ?later, scenarioRegExps)"
    by (simp only: filterArtifactsForRevision_stateless [OF l' s] kept)
  note inst = filterArtifactsForRevision_subset [of scenarioStore "''abc123''" scenarioRegExps
      "Some ?opts" "[Download wheel, Listing ''abc123'']"]
  from inst l f
  have sub: "\<exists>ys. settled (Promise 0 (Inr scenarioListing)) = Inr ys \<and> set [wheel, sdist] \<subseteq> set ys"
    by blast
  from inst l f'
  have "\<exists>ys. settled (Promise 0 (Inr scenarioListing)) = Inr ys \<and> set [wheel, sdist] \<subseteq> set ys"
    by blast
  show ?thesis
    by (intro conjI) (rule l f f' l' sub)+
qed




text \<open>
  Claim C9. For every revision info exactly one of \<open>isRevisionBuiltSuccessfully\<close>,
  \<open>isRevisionFailed\<close> and \<open>isRevisionPending\<close> holds.
\<close>

theorem revision_predicates_partition:
  "(isRevisionBuiltSuccessfully i \<and> \<not> isRevisionFailed i \<and> \<not> isRevisionPending i) \<or>
   (\<not> isRevisionBuiltSuccessfully i \<and> isRevisionFailed i \<and> \<not> isRevisionPending i) \<or>
   (\<not> isRevisionBuiltSuccessfully i \<and> \<not> isRevisionFailed i \<and> isRevisionPending i)"
  by (auto simp: isRevisionBuiltSuccessfully_def isRevisionFailed_def isRevisionPending_def)

theorem revision_predicates_partition_witness:
  "isRevisionBuiltSuccessfully \<lparr>status = FINISHED, result = PASSED\<rparr> \<and>
   isRevisionFailed \<lparr>status = FINISHED, result = OtherResult ''failed''\<rparr> \<and>
   isRevisionPending \<lparr>status = OtherStatus ''in_progress'', result = PASSED\<rparr> \<and>
   \<not> isRevisionFailed \<lparr>status = FINISHED, result = PASSED\<rparr> \<and>
   \<not> isRevisionPending \<lparr>status = FINISHED, result = PASSED\<rparr>"
  using revision_predicates_partition [of "\<lparr>status = FINISHED, result = PASSED\<rparr>"]
  by (simp add: isRevisionBuiltSuccessfully_def isRevisionFailed_def isRevisionPending_def)

section \<open>Properties of the base target\<close>

text \<open>
  Claim C2. The claim gives the target's own filter precedence over the call-site default.
  The spread in \<open>getArtifactsForRevision\<close> puts the default last, so the default replaces the
  target's own key: a target configured to take wheels only, asked with the default of the
  PyPI target, also gets the source archive, which its own filter alone excludes.
\<close>

theorem getArtifactsForRevision_default_overrides_own:
  "fst (filterArtifactsForRevision scenarioStore scenarioRegExps ''abc123''
         (Some (target_filterOptions wheelOnly))) =
     Inr [wheel] \<and>
   fst (getArtifactsForRevision wheelOnly scenarioStore scenarioRegExps ''abc123''
         (Some \<lparr>includeNames = Some DEFAULT_PYPI_REGEX, excludeNames = None\<rparr>)) =
     Inr [wheel, sdist]"
proof
  have s: "statelessOptions scenarioRegExps (target_filterOptions wheelOnly)"
    by (simp add: statelessOptions_def wheelOnly_def scenario_heap scenario_stateless)
  show "fst (filterArtifactsForRevision scenarioStore scenarioRegExps ''abc123''
         (Some (target_filterOptions wheelOnly))) =
     Inr [wheel]"
    unfolding filterArtifactsForRevision_stateless [OF scenario_listing s]
    by (simp add: wheelOnly_def matchesInclude_def matchesExclude_def scenarioListing_def
        scenario_heap scenario_names wheel_def sdist_def readme_def)
  show "fst (getArtifactsForRevision wheelOnly scenarioStore scenarioRegExps ''abc123''
         (Some \<lparr>includeNames = Some DEFAULT_PYPI_REGEX, excludeNames = None\<rparr>)) =
     Inr [wheel, sdist]"
    by (simp add: getArtifactsForRevision_def spread_def wheelOnly_def scenario_filtered)
qed

section \<open>Properties of the release command and of dry-run mode\<close>

subsection \<open>Computing with runs\<close>

lemma andThen_throw [simp]: "andThen (t, Inl e) f = (t, Inl e)"
  by (simp add: andThen_def)

lemma andThen_return [simp]: "andThen (t, Inr x) f = (t @ fst (f x), snd (f x))"
  by (simp add: andThen_def split: prod.splits)

lemma andThen_ret [simp]: "andThen (ret x) f = f x"
  by (simp add: ret_def)

lemma andThen_emit [simp]: "andThen (emit ev) f = (ev # fst (f ()), snd (f ()))"
  by (simp add: emit_def)

lemma andThen_call_Inr [simp]: "andThen (call ev (Inr x)) f = (ev # fst (f x), snd (f x))"
  by (simp add: call_def)

lemma andThen_call_Inl [simp]: "andThen (call ev (Inl e)) f = ([ev], Inl e)"
  by (simp add: call_def)

lemma andThen_reportError [simp]: "andThen (reportError msg) f = ([], Inl (Error None msg))"
  by (simp add: reportError_def throw_def)

lemma fst_andThen: "fst (andThen m f) = (case snd m of Inl e \<Rightarrow> fst m | Inr x \<Rightarrow> fst m @ fst (f x))"
  by (cases m) (simp split: sum.splits)

lemma snd_andThen: "snd (andThen m f) = (case snd m of Inl e \<Rightarrow> Inl e | Inr x \<Rightarrow> snd (f x))"
  by (cases m) (simp split: sum.splits)

lemma run_simps [simp]:
  "fst (ret x) = []" "snd (ret x) = Inr x"
  "fst (throw e) = []" "snd (throw e) = Inl e"
  "fst (emit ev) = [ev]" "snd (emit ev) = Inr ()"
  "fst (call ev a) = [ev]" "snd (call ev a) = a"
  "fst (reportError msg) = []" "snd (reportError msg) = Inl (Error None msg)"
  by (simp_all add: ret_def throw_def emit_def call_def reportError_def)

lemma tryCatch_simps [simp]:
  "tryCatch (t, Inr x) h = (t, Inr x)"
  "tryCatch (t, Inl e) h = (t @ fst (h e), snd (h e))"
  by (simp_all add: tryCatch_def split: prod.splits)

subsection \<open>The steps of the release command\<close>

lemma createReleaseBranch_exists:
  assumes "revparse git [''release/'' @ v] = Inr h" and "h \<noteq> ''''"
  shows "createReleaseBranch perform git v =
    ([Revparse [''release/'' @ v]], Inl (Error None (''Branch already exists: release/'' @ v)))"
  using assms by (simp add: createReleaseBranch_def Let_def call_def)

lemma createReleaseBranch_absent_dry:
  assumes "revparse git [''release/'' @ v] = Inr '''' \<or>
    (\<exists>e. revparse git [''release/'' @ v] = Inl e \<and> matchesPlain (err_message e) ''unknown revision'')"
  shows "createReleaseBranch False git v =
    ([Revparse [''release/'' @ v], Log LInfo [''[dry-run] Not creating a new release branch'']],
     Inr (''release/'' @ v))"
  using assms by (auto simp: createReleaseBranch_def Let_def call_def)

lemma createReleaseBranch_absent_live:
  assumes "revparse git [''release/'' @ v] = Inr '''' \<or>
    (\<exists>e. revparse git [''release/'' @ v] = Inl e \<and> matchesPlain (err_message e) ''unknown revision'')"
  shows "createReleaseBranch True git v =
    (case checkoutLocalBranch git (''release/'' @ v) of
       Inl e \<Rightarrow> ([Revparse [''release/'' @ v], CheckoutLocalBranch (''release/'' @ v)], Inl e)
     | Inr u \<Rightarrow>
         ([Revparse [''release/'' @ v], CheckoutLocalBranch (''release/'' @ v),
           Log LInfo [''Created a new release branch: release/'' @ v]],
          Inr (''release/'' @ v)))"
  using assms by (auto simp: createReleaseBranch_def Let_def call_def split: sum.splits)

lemma createReleaseBranch_name:
  "snd (createReleaseBranch perform git v) = Inr b \<Longrightarrow> b = ''release/'' @ v"
  by (cases "revparse git [''release/'' @ v]"; cases perform;
      cases "checkoutLocalBranch git (''release/'' @ v)")
     (auto simp: createReleaseBranch_def Let_def call_def split: if_splits)

lemma createReleaseBranch_dry_calm:
  "CheckoutLocalBranch b \<notin> set (fst (createReleaseBranch False git v))"
  by (cases "revparse git [''release/'' @ v]")
     (auto simp: createReleaseBranch_def Let_def call_def split: if_splits)

lemma checkGitState_disabled:
  "checkGitState git d False = ([Log LWarn [''Not checking the status of the local repository'']], Inr ())"
  by (simp add: checkGitState_def emit_def)

lemma checkGitState_not_repo:
  "checkIsRepo git = Inr False \<Longrightarrow>
   checkGitState git d True =
     ([Log LInfo [''Checking the local repository status...''], CheckIsRepo],
      Inl (Error None ''Not a git repository!''))"
  by (simp add: checkGitState_def throw_def)

lemma checkGitState_status:
  assumes "checkIsRepo git = Inr True" and "git_status git BeforePreRelease = Inr s"
  shows "checkGitState git d True =
     ([Log LInfo [''Checking the local repository status...''], CheckIsRepo, GitStatus],
      if d \<noteq> current s then
        Inl (Error None (''Please switch to your default branch ('' @ d @ '') first''))
      else if dirty s then
        Inl (Error None (''Your repository is in a dirty state. '' @
                         ''Please stash or commit the pending changes.''))
      else if ahead s > 0 then
        Inl (Error None (''Your repository has unpushed changes: the current branch is '' @
                         showInt (ahead s) @ '' commits ahead.''))
      else Inr ())"
  using assms by (simp add: checkGitState_def ret_def)

lemma checkGitState_fails_iff:
  assumes "checkIsRepo git = Inr r" and "r \<Longrightarrow> git_status git BeforePreRelease = Inr s"
  shows "isl (snd (checkGitState git d True)) \<longleftrightarrow> (\<not> r \<or> d \<noteq> current s \<or> dirty s \<or> ahead s > 0)"
proof (cases r)
  case True
  with assms have "git_status git BeforePreRelease = Inr s" and "checkIsRepo git = Inr True"
    by simp_all
  from checkGitState_status [OF this(2) this(1)] True show ?thesis
    by simp
next
  case False
  with assms show ?thesis
    by (simp add: checkGitState_not_repo)
qed

lemma checkGitState_no_branchCreation:
  "list_all (\<lambda>ev. \<not> branchCreation ev) (fst (checkGitState git d chk))"
  by (cases chk; cases "checkIsRepo git"; cases "git_status git BeforePreRelease")
     (auto simp: checkGitState_def throw_def)

lemma checkGitState_dirty_fails:
  assumes "git_status git BeforePreRelease = Inr s" and "dirty s"
  shows "isl (snd (checkGitState git d True))"
proof (cases "checkIsRepo git")
  case (Inl e)
  then show ?thesis by (simp add: checkGitState_def)
next
  case (Inr r)
  from checkGitState_fails_iff [OF Inr, of s d] assms show ?thesis
    by blast
qed

lemma commitNewVersion_nothing:
  assumes "git_status git AfterPreRelease = Inr s" and "created s = []" and "modified s = []"
  shows "commitNewVersion perform git v =
    ([GitStatus], Inl (Error None ''Nothing to commit: has the pre-release command done its job?''))"
  using assms by (simp add: commitNewVersion_def Let_def)

lemma commitNewVersion_live:
  assumes "git_status git AfterPreRelease = Inr s" and "created s \<noteq> [] \<or> modified s \<noteq> []"
  shows "commitNewVersion True git v =
    ([GitStatus, Log LInfo [''Committing the release changes...''],
      Commit (''release: '' @ v) [''--all'']],
     commit git (''release: '' @ v) [''--all''])"
  using assms by (auto simp: commitNewVersion_def Let_def call_def)

lemma commitNewVersion_dry:
  assumes "git_status git AfterPreRelease = Inr s" and "created s \<noteq> [] \<or> modified s \<noteq> []"
  shows "commitNewVersion False git v =
    ([GitStatus, Log LInfo [''Committing the release changes...''],
      Log LInfo [''[dry-run] Not committing the changes.'']],
     Inr ())"
  using assms by (auto simp: commitNewVersion_def Let_def emit_def)

subsection \<open>A dirty tree stops the handler before the branch\<close>

lemma stops_andThen:
  assumes "list_all Q (fst m)"
    and "\<And>x. snd m = Inr x \<Longrightarrow> isl (snd (f x)) \<and> list_all Q (fst (f x))"
  shows "isl (snd (andThen m f)) \<and> list_all Q (fst (andThen m f))"
  using assms by (cases m; cases "snd m") auto

lemma stops_here:
  assumes "isl (snd m)" and "list_all Q (fst m)"
  shows "isl (snd (andThen m f)) \<and> list_all Q (fst (andThen m f))"
  using assms by (cases m; cases "snd m") auto

lemma checkChangelog_no_branchCreation:
  "list_all (\<lambda>ev. \<not> branchCreation ev) (fst (checkChangelog env v p c))"
  by (auto simp: checkChangelog_def Let_def fst_andThen throw_def split: sum.splits option.splits)

lemma getGithubClient_trace [simp]: "fst (getGithubClient env token) = []"
  by (simp add: getGithubClient_def Let_def)

lemma handlerBody_dirty:
  assumes "\<not> argv_noGitChecks argv"
    and "git_status (releaseGit env) BeforePreRelease = Inr s" and "dirty s"
  shows "isl (snd (handlerBody perform env argv)) \<and>
    list_all (\<lambda>ev. \<not> branchCreation ev) (fst (handlerBody perform env argv))"
  unfolding handlerBody_def Let_def
  apply (rule stops_andThen, simp)
  apply (rule stops_andThen, simp)
  apply (rule stops_andThen, rule checkChangelog_no_branchCreation)
  apply (rule stops_andThen, simp)
  apply (rule stops_andThen, simp)
  apply (rule stops_here)
   apply (simp add: assms(1))
   apply (rule checkGitState_dirty_fails [OF assms(2) [unfolded releaseGit_def] assms(3)])
  apply (rule checkGitState_no_branchCreation)
  done

lemma handler_dirty:
  assumes "\<not> argv_noGitChecks argv"
    and "git_status (releaseGit env) BeforePreRelease = Inr s" and "dirty s"
  shows "(\<exists>e. snd (handler perform env argv) = Failed e) \<and>
    list_all (\<lambda>ev. \<not> branchCreation ev) (fst (handler perform env argv))"
proof -
  from handlerBody_dirty [OF assms, of perform]
  obtain t e where "handlerBody perform env argv = (t, Inl e)"
    and "list_all (\<lambda>ev. \<not> branchCreation ev) t"
    by (cases "handlerBody perform env argv"; cases "snd (handlerBody perform env argv)") auto
  then show ?thesis
    by (simp add: handler_def Let_def)
qed

subsection \<open>Dry runs make no state-changing call\<close>

lemma calm_simps [simp]: "calm []" "calm (ev # t) = (\<not> mutating ev \<and> calm t)"
  "calm (t @ t') = (calm t \<and> calm t')"
  by (simp_all add: calm_def)


















subsection \<open>Dry runs and live runs of the release command agree\<close>

lemma common_simps [simp]: "common [] = []" "common (t @ t') = common t @ common t'"
  "common (ev # t) = (if gated ev then common t else ev # common t)"
  by (simp_all add: common_def)

lemma agree_refl [simp]: "agree m m"
  by (simp add: agree_def)









subsection \<open>Dry runs and live runs of the GitHub target agree\<close>










subsection \<open>The concrete release, run\<close>

lemmas scenario_defs = scenarioEnv_def scenarioGit_def scenarioArgv_def cleanStatus_def withGit_def
  releaseGit_def orElse_def

lemmas release_defs = handler_def handlerBody_def checkChangelog_def getGithubClient_def
  checkGitState_def createReleaseBranch_def runPreReleaseCommand_def commitNewVersion_def
  pushReleaseBranch_def execPublish_def isDryRun_def dirty_def Let_def startsWith_def
  policyName_def quoted_def DEFAULT_BUMP_VERSION_PATH_def call_def ret_def throw_def emit_def
  reportError_def


lemma scenario_dry:
  "handler False scenarioEnv scenarioArgv =
    ([Log LInfo [''[dry-run] Dry-run mode is on!''],
      Chdir ''/repo'',
      Log LInfo [''Changelog policy is set to '' @ quoted ''none'' @ '', nothing to do.''],
      GetDefaultBranch ''getsentry'' ''craft'',
      Log LInfo [''Checking the local repository status...''],
      CheckIsRepo, GitStatus,
      Log LInfo [''Preparing to release the version: 1.2.0''],
      Revparse [''release/1.2.0''],
      Log LInfo [''[dry-run] Not creating a new release branch''],
      Log LInfo [''Running a pre-release command...''],
      SpawnProcess (Some ''/bin/bash'') [''scripts/bump-version.sh'', '''', ''1.2.0'']
        [(''CRAFT_NEW_VERSION'', ''1.2.0''), (''CRAFT_OLD_VERSION'', '''')],
      GitStatus,
      Log LInfo [''Committing the release changes...''],
      Log LInfo [''[dry-run] Not committing the changes.''],
      Log LInfo [''Pushing the release branch '' @ quoted ''release/1.2.0'' @ ''...''],
      Log LInfo [''[dry-run] Not pushing the release branch.''],
      Log LSuccess [''Done. Do not forget to run '' @ quoted ''craft publish'' @
             '' to publish the artifacts:'', ''  $ craft publish 1.2.0'']],
     Done)"
  by (simp add: release_defs scenario_defs)

subsection \<open>The claims on the release command\<close>

lemma dirty_iff:
  "dirty s \<longleftrightarrow>
     (conflicted s \<noteq> [] \<or> created s \<noteq> [] \<or> deleted s \<noteq> [] \<or> modified s \<noteq> [] \<or>
      renamed s \<noteq> [] \<or> staged s \<noteq> [])"
  by (simp add: dirty_def)
















text \<open>
  Claim C6. With the checks disabled \<open>checkGitState\<close> asks the git client nothing and
  passes. With the checks enabled it fails when the directory is not a repository; and in a
  repository whose status the client answers, it fails exactly when the current branch is
  not the default branch, or one of the conflicted, created, deleted, modified, renamed and
  staged lists is not empty, or the branch is ahead of the remote. In the handler, with the
  checks enabled and such a list not empty, the run ends in failure and has neither looked
  the release branch up nor created it.
\<close>

theorem checkGitState_validates:
  "checkGitState git d False =
     ([Log LWarn [''Not checking the status of the local repository'']], Inr ()) \<and>
   (checkIsRepo git = Inr False \<longrightarrow>
      snd (checkGitState git d True) = Inl (Error None ''Not a git repository!'')) \<and>
   (checkIsRepo git = Inr True \<and> git_status git BeforePreRelease = Inr s \<longrightarrow>
      (isl (snd (checkGitState git d True)) \<longleftrightarrow>
         (d \<noteq> current s \<or>
          conflicted s \<noteq> [] \<or> created s \<noteq> [] \<or> deleted s \<noteq> [] \<or> modified s \<noteq> [] \<or>
          renamed s \<noteq> [] \<or> staged s \<noteq> [] \<or>
          ahead s > 0))) \<and>
   (\<not> argv_noGitChecks argv \<and> git_status (releaseGit env) BeforePreRelease = Inr s' \<and>
    (conflicted s' \<noteq> [] \<or> created s' \<noteq> [] \<or> deleted s' \<noteq> [] \<or> modified s' \<noteq> [] \<or>
     renamed s' \<noteq> [] \<or> staged s' \<noteq> []) \<longrightarrow>
      (\<exists>e. snd (handler perform env argv) = Failed e) \<and>
      list_all (\<lambda>ev. \<not> branchCreation ev) (fst (handler perform env argv)))"
proof (intro conjI impI)
  show "checkGitState git d False =
     ([Log LWarn [''Not checking the status of the local repository'']], Inr ())"
    by (rule checkGitState_disabled)
next
  assume "checkIsRepo git = Inr False"
  then show "snd (checkGitState git d True) = Inl (Error None ''Not a git repository!'')"
    by (simp add: checkGitState_not_repo)
next
  assume a: "checkIsRepo git = Inr True \<and> git_status git BeforePreRelease = Inr s"
  then have "isl (snd (checkGitState git d True)) \<longleftrightarrow>
      (\<not> True \<or> d \<noteq> current s \<or> dirty s \<or> ahead s > 0)"
    by (intro checkGitState_fails_iff) simp_all
  then show "isl (snd (checkGitState git d True)) \<longleftrightarrow>
         (d \<noteq> current s \<or>
          conflicted s \<noteq> [] \<or> created s \<noteq> [] \<or> deleted s \<noteq> [] \<or> modified s \<noteq> [] \<or>
          renamed s \<noteq> [] \<or> staged s \<noteq> [] \<or>
          ahead s > 0)"
    unfolding dirty_iff by blast
next
  assume a: "\<not> argv_noGitChecks argv \<and> git_status (releaseGit env) BeforePreRelease = Inr s' \<and>
    (conflicted s' \<noteq> [] \<or> created s' \<noteq> [] \<or> deleted s' \<noteq> [] \<or> modified s' \<noteq> [] \<or>
     renamed s' \<noteq> [] \<or> staged s' \<noteq> [])"
  then have "dirty s'" by (simp add: dirty_iff)
  with a have "(\<exists>e. snd (handler perform env argv) = Failed e) \<and>
      list_all (\<lambda>ev. \<not> branchCreation ev) (fst (handler perform env argv))"
    by (intro handler_dirty) simp_all
  then show "\<exists>e. snd (handler perform env argv) = Failed e"
    and "list_all (\<lambda>ev. \<not> branchCreation ev) (fst (handler perform env argv))"
    by simp_all
qed

lemma staged_run:
  "handler True (withGit scenarioEnv stagedGit) scenarioArgv =
    ([Chdir ''/repo'',
      Log LInfo [''Changelog policy is set to '' @ quoted ''none'' @ '', nothing to do.''],
      GetDefaultBranch ''getsentry'' ''craft'',
      Log LInfo [''Checking the local repository status...''],
      CheckIsRepo, GitStatus,
      LogThrown (Error None (''Your repository is in a dirty state. '' @
                             ''Please stash or commit the pending changes.''))],
     Failed (Error None (''Your repository is in a dirty state. '' @
                         ''Please stash or commit the pending changes.'')))"
  by (simp add: release_defs scenario_defs stagedGit_def)

theorem checkGitState_validates_witness:
  "checkIsRepo (scenarioGit\<lparr>checkIsRepo := Inr False\<rparr>) = Inr False \<and>
   snd (checkGitState (scenarioGit\<lparr>checkIsRepo := Inr False\<rparr>) ''master'' True) =
     Inl (Error None ''Not a git repository!'') \<and>
   checkIsRepo stagedGit = Inr True \<and>
   git_status (releaseGit (withGit scenarioEnv stagedGit)) BeforePreRelease =
     Inr (cleanStatus\<lparr>staged := [''README.md'']\<rparr>) \<and>
   isl (snd (checkGitState stagedGit ''master'' True)) \<and>
   snd (handler True (withGit scenarioEnv stagedGit) scenarioArgv) =
     Failed (Error None (''Your repository is in a dirty state. '' @
                         ''Please stash or commit the pending changes.'')) \<and>
   list_all (\<lambda>ev. \<not> branchCreation ev)
     (fst (handler True (withGit scenarioEnv stagedGit) scenarioArgv))"
proof -
  have repo: "checkIsRepo stagedGit = Inr True"
    by (simp add: stagedGit_def scenarioGit_def)
  have st: "git_status stagedGit BeforePreRelease = Inr (cleanStatus\<lparr>staged := [''README.md'']\<rparr>)"
    by (simp add: stagedGit_def scenarioGit_def)
  have st': "git_status (releaseGit (withGit scenarioEnv stagedGit)) BeforePreRelease =
     Inr (cleanStatus\<lparr>staged := [''README.md'']\<rparr>)"
    by (simp add: releaseGit_def withGit_def st)
  have checks: "\<not> argv_noGitChecks scenarioArgv"
    by (simp add: scenarioArgv_def)
  have staged: "staged (cleanStatus\<lparr>staged := [''README.md'']\<rparr>) \<noteq> []"
    by simp
  have ended: "snd (handler True (withGit scenarioEnv stagedGit) scenarioArgv) =
     Failed (Error None (''Your repository is in a dirty state. '' @
                         ''Please stash or commit the pending changes.''))"
    by (simp add: staged_run)
  note inst = checkGitState_validates [of stagedGit "''master''" "cleanStatus\<lparr>staged := [''README.md'']\<rparr>"
      scenarioArgv "withGit scenarioEnv stagedGit" "cleanStatus\<lparr>staged := [''README.md'']\<rparr>" True]
  from inst repo st staged have fails: "isl (snd (checkGitState stagedGit ''master'' True))"
    by simp
  from inst st' checks staged
  have before: "list_all (\<lambda>ev. \<not> branchCreation ev)
     (fst (handler True (withGit scenarioEnv stagedGit) scenarioArgv))"
    by simp
  have norepo: "checkIsRepo (scenarioGit\<lparr>checkIsRepo := Inr False\<rparr>) = Inr False"
    by simp
  note outside = checkGitState_validates [of "scenarioGit\<lparr>checkIsRepo := Inr False\<rparr>" "''master''"
      cleanStatus scenarioArgv scenarioEnv cleanStatus True,
      THEN conjunct2, THEN conjunct1, THEN mp, OF norepo]
  show ?thesis
    by (intro conjI) (rule norepo outside repo st' fails ended before)+
qed

text \<open>
  Claim C7, amended. When the working tree has no change at all after the pre-release
  command, \<open>commitNewVersion\<close> fails with \<open>Nothing to commit\<close>. When created or modified
  files exist it does not fail so: a live run commits all pending changes with the message
  \<open>release: <version>\<close> (and ends as that commit ends), a dry run logs that it does not
  commit and calls nothing. (A tree whose only changes are deletions, renames, staged or
  conflicted files is left out here.)
\<close>

theorem commitNewVersion_commits_or_reports:
  "git_status git AfterPreRelease = Inr s \<longrightarrow>
     (conflicted s = [] \<and> created s = [] \<and> deleted s = [] \<and> modified s = [] \<and>
      renamed s = [] \<and> staged s = [] \<longrightarrow>
        commitNewVersion perform git v =
          ([GitStatus],
           Inl (Error None ''Nothing to commit: has the pre-release command done its job?''))) \<and>
     (created s \<noteq> [] \<or> modified s \<noteq> [] \<longrightarrow>
        commitNewVersion True git v =
          ([GitStatus, Log LInfo [''Committing the release changes...''],
            Commit (''release: '' @ v) [''--all'']],
           commit git (''release: '' @ v) [''--all'']) \<and>
        commitNewVersion False git v =
          ([GitStatus, Log LInfo [''Committing the release changes...''],
            Log LInfo [''[dry-run] Not committing the changes.'']],
           Inr ()))"
  by (simp add: commitNewVersion_nothing commitNewVersion_live commitNewVersion_dry)

theorem commitNewVersion_commits_or_reports_witness:
  "git_status scenarioGit AfterPreRelease = Inr (cleanStatus\<lparr>modified := [''package.json'']\<rparr>) \<and>
   commitNewVersion True scenarioGit ''1.2.0'' =
     ([GitStatus, Log LInfo [''Committing the release changes...''],
       Commit ''release: 1.2.0'' [''--all'']], Inr ()) \<and>
   git_status scenarioGit BeforePreRelease = Inr cleanStatus \<and>
   commitNewVersion True (scenarioGit\<lparr>git_status := (\<lambda>m. Inr cleanStatus)\<rparr>) ''1.2.0'' =
     ([GitStatus], Inl (Error None ''Nothing to commit: has the pre-release command done its job?''))"
proof -
  have after: "git_status scenarioGit AfterPreRelease = Inr (cleanStatus\<lparr>modified := [''package.json'']\<rparr>)"
    and before: "git_status scenarioGit BeforePreRelease = Inr cleanStatus"
    and none: "git_status (scenarioGit\<lparr>git_status := (\<lambda>m. Inr cleanStatus)\<rparr>) AfterPreRelease =
      Inr cleanStatus"
    and committed: "commit scenarioGit (''release: '' @ ''1.2.0'') [''--all''] = Inr ()"
    by (simp_all add: scenarioGit_def)
  have changed: "modified (cleanStatus\<lparr>modified := [''package.json'']\<rparr>) \<noteq> []"
    by simp
  have clean: "conflicted cleanStatus = [] \<and> created cleanStatus = [] \<and> deleted cleanStatus = [] \<and>
      modified cleanStatus = [] \<and> renamed cleanStatus = [] \<and> staged cleanStatus = []"
    by (simp add: cleanStatus_def)
  note inst1 = commitNewVersion_commits_or_reports [of scenarioGit
      "cleanStatus\<lparr>modified := [''package.json'']\<rparr>" True "''1.2.0''", THEN mp, OF after,
      THEN conjunct2, THEN mp, OF disjI2, OF changed, THEN conjunct1]
  have live: "commitNewVersion True scenarioGit ''1.2.0'' =
     ([GitStatus, Log LInfo [''Committing the release changes...''],
       Commit ''release: 1.2.0'' [''--all'']], Inr ())"
    using inst1 committed by simp
  have unchanged: "commitNewVersion True (scenarioGit\<lparr>git_status := (\<lambda>m. Inr cleanStatus)\<rparr>) ''1.2.0'' =
     ([GitStatus], Inl (Error None ''Nothing to commit: has the pre-release command done its job?''))"
    by (rule commitNewVersion_commits_or_reports [of "scenarioGit\<lparr>git_status := (\<lambda>m. Inr cleanStatus)\<rparr>"
      cleanStatus True "''1.2.0''", THEN mp, OF none, THEN conjunct1, THEN mp, OF clean])
  show ?thesis
    by (intro conjI) (rule after live before unchanged)+
qed

text \<open>
  Claim C7 as stated fails twice. Under dry-run a modified file exists and nothing is
  committed. And in a live run whose only change is a deleted file the step reports that
  there is nothing to commit.
\<close>

theorem commitNewVersion_counterexample:
  "modified (cleanStatus\<lparr>modified := [''package.json'']\<rparr>) \<noteq> [] \<and>
   commitNewVersion False scenarioGit ''1.2.0'' =
     ([GitStatus, Log LInfo [''Committing the release changes...''],
       Log LInfo [''[dry-run] Not committing the changes.'']], Inr ()) \<and>
   deleted (cleanStatus\<lparr>deleted := [''setup.cfg'']\<rparr>) \<noteq> [] \<and>
   commitNewVersion True
       (scenarioGit\<lparr>git_status := (\<lambda>m. Inr (cleanStatus\<lparr>deleted := [''setup.cfg'']\<rparr>))\<rparr>) ''1.2.0'' =
     ([GitStatus], Inl (Error None ''Nothing to commit: has the pre-release command done its job?''))"
  by (simp add: release_defs scenario_defs)

text \<open>
  Claim C8. \<open>createReleaseBranch\<close> returns, when it returns, the name \<open>release/<version>\<close>.
  When \<open>revparse\<close> finds a commit for that name, the branch exists and the function fails
  with \<open>Branch already exists\<close>, without creating anything. Under dry-run, when the branch
  does not exist (\<open>revparse\<close> answers nothing, or fails with \<open>unknown revision\<close>), it logs that
  it creates no branch and returns the derived name; and whatever the client answers, a
  dry run never calls \<open>checkoutLocalBranch\<close>.
\<close>

theorem createReleaseBranch_contract:
  "(\<forall>b. snd (createReleaseBranch perform git v) = Inr b \<longrightarrow> b = ''release/'' @ v) \<and>
   (\<forall>h. revparse git [''release/'' @ v] = Inr h \<and> h \<noteq> '''' \<longrightarrow>
      createReleaseBranch perform git v =
        ([Revparse [''release/'' @ v]],
         Inl (Error None (''Branch already exists: release/'' @ v)))) \<and>
   (revparse git [''release/'' @ v] = Inr '''' \<or>
    (\<exists>e. revparse git [''release/'' @ v] = Inl e \<and>
         matchesPlain (err_message e) ''unknown revision'') \<longrightarrow>
      createReleaseBranch False git v =
        ([Revparse [''release/'' @ v],
          Log LInfo [''[dry-run] Not creating a new release branch'']],
         Inr (''release/'' @ v))) \<and>
   (\<forall>b. CheckoutLocalBranch b \<notin> set (fst (createReleaseBranch False git v)))"
proof (intro conjI allI impI)
  fix b
  assume "snd (createReleaseBranch perform git v) = Inr b"
  then show "b = ''release/'' @ v"
    by (rule createReleaseBranch_name)
next
  fix h
  assume "revparse git [''release/'' @ v] = Inr h \<and> h \<noteq> ''''"
  then show "createReleaseBranch perform git v =
        ([Revparse [''release/'' @ v]],
         Inl (Error None (''Branch already exists: release/'' @ v)))"
    by (simp add: createReleaseBranch_exists)
next
  assume "revparse git [''release/'' @ v] = Inr '''' \<or>
    (\<exists>e. revparse git [''release/'' @ v] = Inl e \<and>
         matchesPlain (err_message e) ''unknown revision'')"
  then show "createReleaseBranch False git v =
        ([Revparse [''release/'' @ v],
          Log LInfo [''[dry-run] Not creating a new release branch'']],
         Inr (''release/'' @ v))"
    by (rule createReleaseBranch_absent_dry)
next
  fix b
  show "CheckoutLocalBranch b \<notin> set (fst (createReleaseBranch False git v))"
    by (rule createReleaseBranch_dry_calm)
qed

theorem createReleaseBranch_contract_witness:
  "createReleaseBranch False scenarioGit ''1.2.0'' =
     ([Revparse [''release/1.2.0''], Log LInfo [''[dry-run] Not creating a new release branch'']],
      Inr ''release/1.2.0'') \<and>
   createReleaseBranch False (scenarioGit\<lparr>revparse := (\<lambda>r. Inr ''4f2a9c1'')\<rparr>) ''1.2.0'' =
     ([Revparse [''release/1.2.0'']], Inl (Error None ''Branch already exists: release/1.2.0'')) \<and>
   createReleaseBranch True scenarioGit ''1.2.0'' =
     ([Revparse [''release/1.2.0''], CheckoutLocalBranch ''release/1.2.0'',
       Log LInfo [''Created a new release branch: release/1.2.0'']],
      Inr ''release/1.2.0'')"
proof -
  have absent: "revparse scenarioGit [''release/'' @ ''1.2.0''] = Inl (Error None ''fatal: unknown revision'') \<and>
      matchesPlain (err_message (Error None ''fatal: unknown revision'')) ''unknown revision''"
    by (simp add: scenarioGit_def startsWith_def)
  have present: "revparse (scenarioGit\<lparr>revparse := (\<lambda>r. Inr ''4f2a9c1'')\<rparr>) [''release/'' @ ''1.2.0''] =
      Inr ''4f2a9c1'' \<and> ''4f2a9c1'' \<noteq> ''''"
    by simp
  have live: "createReleaseBranch True scenarioGit ''1.2.0'' =
     ([Revparse [''release/1.2.0''], CheckoutLocalBranch ''release/1.2.0'',
       Log LInfo [''Created a new release branch: release/1.2.0'']],
      Inr ''release/1.2.0'')"
    by (simp add: release_defs scenario_defs)
  have absent': "revparse scenarioGit [''release/'' @ ''1.2.0''] = Inr '''' \<or>
    (\<exists>e. revparse scenarioGit [''release/'' @ ''1.2.0''] = Inl e \<and>
         matchesPlain (err_message e) ''unknown revision'')"
    using absent by blast
  note dry0 = createReleaseBranch_contract [of False scenarioGit "''1.2.0''",
      THEN conjunct2, THEN conjunct2, THEN conjunct1, THEN mp, OF absent']
  have dry: "createReleaseBranch False scenarioGit ''1.2.0'' =
     ([Revparse [''release/1.2.0''], Log LInfo [''[dry-run] Not creating a new release branch'']],
      Inr ''release/1.2.0'')"
    using dry0 by simp
  note exists0 = createReleaseBranch_contract [of False
      "scenarioGit\<lparr>revparse := (\<lambda>r. Inr ''4f2a9c1'')\<rparr>" "''1.2.0''",
      THEN conjunct2, THEN conjunct1, THEN spec, THEN mp, OF present]
  have exists: "createReleaseBranch False (scenarioGit\<lparr>revparse := (\<lambda>r. Inr ''4f2a9c1'')\<rparr>) ''1.2.0'' =
     ([Revparse [''release/1.2.0'']], Inl (Error None ''Branch already exists: release/1.2.0''))"
    using exists0 by simp
  show ?thesis
    by (intro conjI) (rule dry exists live)+
qed

end
